theory Spec2Isabelle
  imports Main "HOL-Library.Word"
begin

section \<open>The interface of the camera SDK\<close>

text \<open>
  Modelled from the spec: the SDK header PlayerOneCamera.h and the SDK library are not
  among the sources. The types below list the enumerators and struct members that the
  example code names; every other error code is \<open>POA_ERROR n\<close>. The SDK itself is a
  parameter of every definition: a transition function on an abstract SDK state.
\<close>

datatype POAErrors = POA_OK | POA_ERROR nat

datatype POABool = POA_FALSE | POA_TRUE

datatype POACameraState = STATE_CLOSED | STATE_OPENED | STATE_EXPOSING

datatype POAImgFormat = POA_RAW8 | POA_RAW16 | POA_RGB24 | POA_MONO8 | POA_END

datatype POAValueType = VAL_INT | VAL_FLOAT | VAL_BOOL

datatype POAConfig =
    POA_EXPOSURE | POA_GAIN | POA_EXP | POA_COOLER | POA_FAN_POWER
  | POA_HEATER_POWER | POA_COOLER_POWER

text \<open>A double is carried as its IEEE bit pattern; the examples do no arithmetic on doubles.\<close>

type_synonym double = "64 word"

type_synonym byte = "8 word"

text \<open>
  The union \<open>POAConfigValue\<close>. Read side: the three views of what the SDK has stored.
  Write side: the member the program has assigned before it passes the union on.
\<close>

record POAConfigValue =
  intValue :: int
  floatValue :: double
  boolValue :: POABool

datatype POAConfigValue_arg = IntValue int | FloatValue double | BoolValue POABool

record POACameraProperties =
  cameraModelName :: string
  SN :: string
  sensorModelName :: string
  cameraID :: int
  maxWidth :: int
  maxHeight :: int
  bins :: "nat \<Rightarrow> int"
  isHasCooler :: POABool

record POAConfigAttributes =
  szConfName :: string
  szDescription :: string
  isWritable :: POABool
  isReadable :: POABool
  valueType :: POAValueType
  minValue :: POAConfigValue
  maxValue :: POAConfigValue
  defaultValue :: POAConfigValue

record POASensorModeInfo =
  mode_name :: string
  mode_desc :: string

text \<open>An SDK call with the arguments the program passes by value (pointers are left out).\<close>

datatype sdk_call =
    POAGetCameraCount
  | POAGetCameraProperties int
  | POAOpenCamera int
  | POAInitCamera int
  | POACloseCamera int
  | POAGetConfigsCount int
  | POAGetConfigAttributes int int
  | POAGetCameraState int
  | POAStartExposure int POABool
  | POAStopExposure int
  | POASetImageSize int int int
  | POAGetImageSize int
  | POASetImageStartPos int int int
  | POAGetImageStartPos int
  | POASetImageFormat int POAImgFormat
  | POAGetImageFormat int
  | POASetImageBin int int
  | POASetConfig int POAConfig POAConfigValue_arg POABool
  | POAGetConfig int POAConfig
  | POAImageReady int
  | POAGetImageData int int int
  | POAGetSensorModeCount int
  | POAGetSensorModeInfo int int
  | POAGetSensorMode int
  | POASetSensorMode int int

text \<open>
  What a call leaves behind: the returned status (for \<open>POAGetCameraCount\<close> the returned
  count is \<open>out_int1\<close> and the status is not used) and the value each out-parameter holds
  after the call.
\<close>

record reply =
  status :: POAErrors
  out_int1 :: int
  out_int2 :: int
  out_bool :: POABool
  out_state :: POACameraState
  out_format :: POAImgFormat
  out_props :: POACameraProperties
  out_attrs :: POAConfigAttributes
  out_value :: POAConfigValue
  out_mode :: POASensorModeInfo
  out_data :: "byte list"

record 's sdk =
  respond :: "sdk_call \<Rightarrow> 's \<Rightarrow> reply \<times> 's"
  POAGetErrorString :: "POAErrors \<Rightarrow> string"


text \<open>The camera-ID argument of a call, when it has one.\<close>

fun camera_arg :: "sdk_call \<Rightarrow> int option" where
  "camera_arg POAGetCameraCount = None"
| "camera_arg (POAGetCameraProperties i) = None"
| "camera_arg (POAOpenCamera c) = Some c"
| "camera_arg (POAInitCamera c) = Some c"
| "camera_arg (POACloseCamera c) = Some c"
| "camera_arg (POAGetConfigsCount c) = Some c"
| "camera_arg (POAGetConfigAttributes c i) = Some c"
| "camera_arg (POAGetCameraState c) = Some c"
| "camera_arg (POAStartExposure c b) = Some c"
| "camera_arg (POAStopExposure c) = Some c"
| "camera_arg (POASetImageSize c x y) = Some c"
| "camera_arg (POAGetImageSize c) = Some c"
| "camera_arg (POASetImageStartPos c x y) = Some c"
| "camera_arg (POAGetImageStartPos c) = Some c"
| "camera_arg (POASetImageFormat c f) = Some c"
| "camera_arg (POAGetImageFormat c) = Some c"
| "camera_arg (POASetImageBin c b) = Some c"
| "camera_arg (POASetConfig c k v a) = Some c"
| "camera_arg (POAGetConfig c k) = Some c"
| "camera_arg (POAImageReady c) = Some c"
| "camera_arg (POAGetImageData c n t) = Some c"
| "camera_arg (POAGetSensorModeCount c) = Some c"
| "camera_arg (POAGetSensorModeInfo c i) = Some c"
| "camera_arg (POAGetSensorMode c) = Some c"
| "camera_arg (POASetSensorMode c i) = Some c"

section \<open>The world of an example program\<close>

text \<open>
  Everything an example does to its environment, in the order it does it: SDK calls with
  their replies, text written to the standard streams, the bytes handed to a file, and
  the final wait for a key.
\<close>

datatype event =
    Called sdk_call reply
  | Cerr string
  | Cout string
  | FileWrite string "byte list"
  | Getchar

record 's world =
  sdk_state :: 's
  trace :: "event list"

definition call :: "'s sdk \<Rightarrow> sdk_call \<Rightarrow> 's world \<Rightarrow> reply \<times> 's world" where
  "call sdk c w =
     (let (r, s') = respond sdk c (sdk_state w)
      in (r, \<lparr>sdk_state = s', trace = trace w @ [Called c r]\<rparr>))"

definition emit :: "event \<Rightarrow> 's world \<Rightarrow> 's world" where
  "emit e w = w\<lparr>trace := trace w @ [e]\<rparr>"

definition cerr :: "string \<Rightarrow> 's world \<Rightarrow> 's world" where
  "cerr s w = emit (Cerr s) w"

definition cout :: "string \<Rightarrow> 's world \<Rightarrow> 's world" where
  "cout s w = emit (Cout s) w"

definition endl :: string where
  "endl = [CHR 0x0A]"

text \<open>The fullwidth exclamation mark of the messages, as its three UTF-8 bytes.\<close>

definition fw_excl :: string where
  "fw_excl = [CHR 0xEF, CHR 0xBC, CHR 0x81]"

text \<open>Decimal output of integers, as \<open>operator<<\<close> and \<open>%d\<close> produce it.\<close>

fun dec_nat :: "nat \<Rightarrow> string" where
  "dec_nat n =
     (if n < 10 then [''0123456789'' ! n]
      else dec_nat (n div 10) @ [''0123456789'' ! (n mod 10)])"

declare dec_nat.simps [simp del]

definition dec_int :: "int \<Rightarrow> string" where
  "dec_int i = (if i < 0 then ''-'' @ dec_nat (nat (- i)) else dec_nat (nat i))"

fun POABool_int :: "POABool \<Rightarrow> int" where
  "POABool_int POA_FALSE = 0"
| "POABool_int POA_TRUE = 1"

text \<open>C's integer division truncates towards zero.\<close>

definition c_div :: "int \<Rightarrow> int \<Rightarrow> int" where
  "c_div a b = sgn a * sgn b * (\<bar>a\<bar> div \<bar>b\<bar>)"

text \<open>
  On the Windows target of the examples \<open>int\<close>, \<open>long\<close> and \<open>unsigned long\<close> have 32
  bits. \<open>wrap32\<close> is the value an \<open>int\<close> or \<open>long\<close> holds after a result has been
  brought back into its range; an \<open>unsigned long\<close> is a \<open>32 word\<close>, and \<open>sint\<close> reads it
  as a \<open>long\<close>.
\<close>

definition wrap32 :: "int \<Rightarrow> int" where
  "wrap32 x = (x + 2 ^ 31) mod 2 ^ 32 - 2 ^ 31"

text \<open>
  The SDK fills the caller's buffer from its start and never writes past its end; the
  bytes it does not reach keep their content.
\<close>

definition sdk_fill :: "byte list \<Rightarrow> byte list \<Rightarrow> byte list" where
  "sdk_fill buf data = take (length buf) data @ drop (length data) buf"

text \<open>
  \<open>std::map<int, string>\<close> as an association list in ascending key order;
  \<open>insert\<close> keeps an entry whose key is already present.
\<close>

fun map_insert :: "int \<times> string \<Rightarrow> (int \<times> string) list \<Rightarrow> (int \<times> string) list" where
  "map_insert (k, v) [] = [(k, v)]"
| "map_insert (k, v) ((k', v') # m) =
     (if k < k' then (k, v) # (k', v') # m
      else if k = k' then (k', v') # m
      else (k', v') # map_insert (k, v) m)"

section \<open>POACamera.h\<close>

record ROIArea =
  startX :: int
  startY :: int
  width :: int
  height :: int

definition ROIArea_new :: ROIArea where
  "ROIArea_new = \<lparr>startX = 0, startY = 0, width = 0, height = 0\<rparr>"

datatype ImageFormat = RAW8 | RAW16 | RGB888 | MONO8

record POACamera =
  m_nCameraID :: int

section \<open>POACamera.cpp\<close>

text \<open>
  A member function takes the object and the world and returns its result (\<open>()\<close> for
  \<open>void\<close>), the object and the world. \<open>getImageData\<close> also returns the content of the
  caller's buffer after the call.
\<close>

definition POACamera_default :: POACamera where
  "POACamera_default = \<lparr>m_nCameraID = - 1\<rparr>"

definition POACamera_new :: "int \<Rightarrow> POACamera" where
  "POACamera_new nCameraID = \<lparr>m_nCameraID = nCameraID\<rparr>"

fun getALLCameraIDName_loop ::
  "'s sdk \<Rightarrow> int list \<Rightarrow> (int \<times> string) list \<Rightarrow> 's world \<Rightarrow> (int \<times> string) list \<times> 's world" where
  "getALLCameraIDName_loop sdk [] cameraIDName w = (cameraIDName, w)"
| "getALLCameraIDName_loop sdk (i # rest) cameraIDName w =
     (let (r, w) = call sdk (POAGetCameraProperties i) w;
          error = status r;
          cameraProp = out_props r
      in if error \<noteq> POA_OK then getALLCameraIDName_loop sdk rest cameraIDName w
         else getALLCameraIDName_loop sdk rest
                (map_insert (cameraID cameraProp, cameraModelName cameraProp) cameraIDName) w)"

definition getALLCameraIDName :: "'s sdk \<Rightarrow> 's world \<Rightarrow> (int \<times> string) list \<times> 's world" where
  "getALLCameraIDName sdk w =
     (let (r, w) = call sdk POAGetCameraCount w;
          camera_count = out_int1 r
      in getALLCameraIDName_loop sdk (map int [0..<nat camera_count]) [] w)"

definition openCamera :: "'s sdk \<Rightarrow> POACamera \<Rightarrow> 's world \<Rightarrow> (bool \<times> POACamera) \<times> 's world" where
  "openCamera sdk this w =
     (let (r, w) = call sdk (POAOpenCamera (m_nCameraID this)) w;
          error = status r;
          w = (if error \<noteq> POA_OK
               then cerr (''Open camera failed'' @ fw_excl @ '', error code: ''
                          @ POAGetErrorString sdk error @ endl) w
               else w)
      in (((if error = POA_OK then True else False), this), w))"

definition initCamera :: "'s sdk \<Rightarrow> POACamera \<Rightarrow> 's world \<Rightarrow> (bool \<times> POACamera) \<times> 's world" where
  "initCamera sdk this w =
     (let (r, w) = call sdk (POAInitCamera (m_nCameraID this)) w;
          error = status r;
          w = (if error \<noteq> POA_OK
               then cerr (''Init camera failed'' @ fw_excl @ '', error code: ''
                          @ POAGetErrorString sdk error @ endl) w
               else w)
      in (((if error = POA_OK then True else False), this), w))"

text \<open>
  The text \<open>operator<<\<close> prints for a double is a parameter, \<open>show_double\<close>.
  Lines 92 to 111: what the loop prints for one attribute.
\<close>

definition getAllConfigAttributes_print ::
  "(double \<Rightarrow> string) \<Rightarrow> POAConfigAttributes \<Rightarrow> 's world \<Rightarrow> 's world" where
  "getAllConfigAttributes_print show_double confAttributes w =
     (let w = cout endl w;
          w = cout (''config name: '' @ szConfName confAttributes
                    @ '', config description: '' @ szDescription confAttributes @ endl) w;
          w = cout (''is writable: '' @ dec_int (POABool_int (isWritable confAttributes))
                    @ endl) w;
          w = cout (''is readable: '' @ dec_int (POABool_int (isReadable confAttributes))
                    @ endl) w
      in if valueType confAttributes = VAL_INT
         then cout (''min: '' @ dec_int (intValue (minValue confAttributes))
                    @ '', max: '' @ dec_int (intValue (maxValue confAttributes))
                    @ '', default: '' @ dec_int (intValue (defaultValue confAttributes))
                    @ endl) w
         else if valueType confAttributes = VAL_FLOAT
         then cout (''min: '' @ show_double (floatValue (minValue confAttributes))
                    @ '', max: '' @ show_double (floatValue (maxValue confAttributes))
                    @ '', default: '' @ show_double (floatValue (defaultValue confAttributes))
                    @ endl) w
         else if valueType confAttributes = VAL_BOOL
         then cout (''default is on: ''
                    @ dec_int (POABool_int (boolValue (defaultValue confAttributes)))
                    @ endl) w
         else w)"

fun getAllConfigAttributes_loop ::
  "'s sdk \<Rightarrow> (double \<Rightarrow> string) \<Rightarrow> POACamera \<Rightarrow> int list \<Rightarrow> 's world \<Rightarrow> 's world" where
  "getAllConfigAttributes_loop sdk show_double this [] w = w"
| "getAllConfigAttributes_loop sdk show_double this (i # rest) w =
     (let (r, w) = call sdk (POAGetConfigAttributes (m_nCameraID this) i) w;
          error = status r;
          confAttributes = out_attrs r
      in if error \<noteq> POA_OK
         then getAllConfigAttributes_loop sdk show_double this rest
                (cerr (''Get config attributes failed'' @ fw_excl @ '', index: '' @ dec_int i
                       @ '', error code: '' @ POAGetErrorString sdk error @ endl) w)
         else getAllConfigAttributes_loop sdk show_double this rest
                (getAllConfigAttributes_print show_double confAttributes w))"

definition getAllConfigAttributes ::
  "'s sdk \<Rightarrow> (double \<Rightarrow> string) \<Rightarrow> POACamera \<Rightarrow> 's world
     \<Rightarrow> (unit \<times> POACamera) \<times> 's world" where
  "getAllConfigAttributes sdk show_double this w =
     (let (r, w) = call sdk (POAGetConfigsCount (m_nCameraID this)) w;
          error = status r;
          config_count = out_int1 r
      in if error \<noteq> POA_OK
         then (((), this), cerr (''Get config count failed'' @ fw_excl @ '', error code: ''
                                 @ POAGetErrorString sdk error @ endl) w)
         else (((), this), getAllConfigAttributes_loop sdk show_double this
                             (map int [0..<nat config_count]) w))"

definition setROIArea ::
  "'s sdk \<Rightarrow> POACamera \<Rightarrow> ROIArea \<Rightarrow> 's world \<Rightarrow> (bool \<times> POACamera) \<times> 's world" where
  "setROIArea sdk this roiArea w =
     (let (r, w) = call sdk (POAGetCameraState (m_nCameraID this)) w;
          cameraState = out_state r;
          w = (if cameraState = STATE_EXPOSING
               then snd (call sdk (POAStopExposure (m_nCameraID this)) w) else w);
          (r, w) = call sdk (POASetImageSize (m_nCameraID this) (width roiArea) (height roiArea)) w;
          error = status r
      in if error \<noteq> POA_OK
         then ((False, this),
               cerr (''set resolution failed, error code: '' @ POAGetErrorString sdk error @ endl) w)
         else
           (let (r, w) = call sdk (POASetImageStartPos (m_nCameraID this)
                                     (startX roiArea) (startY roiArea)) w;
                error = status r
            in if error \<noteq> POA_OK
               then ((False, this),
                     cerr (''set start position failed, error code: ''
                           @ POAGetErrorString sdk error @ endl) w)
               else ((True, this), w)))"

definition getROIArea :: "'s sdk \<Rightarrow> POACamera \<Rightarrow> 's world \<Rightarrow> (ROIArea \<times> POACamera) \<times> 's world" where
  "getROIArea sdk this w =
     (let roiArea = ROIArea_new;
          (r, w) = call sdk (POAGetImageStartPos (m_nCameraID this)) w;
          error = status r;
          roiArea = roiArea\<lparr>startX := out_int1 r, startY := out_int2 r\<rparr>;
          w = (if error \<noteq> POA_OK
               then cerr (''get start position failed, error code: ''
                          @ POAGetErrorString sdk error @ endl) w
               else w);
          (r, w) = call sdk (POAGetImageSize (m_nCameraID this)) w;
          error = status r;
          roiArea = roiArea\<lparr>width := out_int1 r, height := out_int2 r\<rparr>;
          w = (if error \<noteq> POA_OK
               then cerr (''get resolution failed, error code: ''
                          @ POAGetErrorString sdk error @ endl) w
               else w)
      in ((roiArea, this), w))"

definition setImageSize ::
  "'s sdk \<Rightarrow> POACamera \<Rightarrow> int \<Rightarrow> int \<Rightarrow> 's world \<Rightarrow> (bool \<times> POACamera) \<times> 's world" where
  "setImageSize sdk this width' height' w =
     (let (r, w) = call sdk (POAGetCameraState (m_nCameraID this)) w;
          cameraState = out_state r;
          w = (if cameraState = STATE_EXPOSING
               then snd (call sdk (POAStopExposure (m_nCameraID this)) w) else w);
          (r, w) = call sdk (POASetImageSize (m_nCameraID this) width' height') w;
          error = status r
      in if error \<noteq> POA_OK
         then ((False, this),
               cerr (''set resolution failed, error code: '' @ POAGetErrorString sdk error @ endl) w)
         else ((True, this), w))"

definition setImageStartPos ::
  "'s sdk \<Rightarrow> POACamera \<Rightarrow> int \<Rightarrow> int \<Rightarrow> 's world \<Rightarrow> (bool \<times> POACamera) \<times> 's world" where
  "setImageStartPos sdk this startX' startY' w =
     (let (r, w) = call sdk (POASetImageStartPos (m_nCameraID this) startX' startY') w;
          error = status r
      in if error \<noteq> POA_OK
         then ((False, this),
               cerr (''set start position failed, error code: ''
                     @ POAGetErrorString sdk error @ endl) w)
         else ((True, this), w))"

text \<open>The two \<open>switch\<close> statements of \<open>setImageFormat\<close> and \<open>getImageFormat\<close>.\<close>

fun setImageFormat_switch :: "ImageFormat \<Rightarrow> POAImgFormat" where
  "setImageFormat_switch RAW8 = POA_RAW8"
| "setImageFormat_switch RAW16 = POA_RAW16"
| "setImageFormat_switch RGB888 = POA_RGB24"
| "setImageFormat_switch MONO8 = POA_MONO8"

fun getImageFormat_switch :: "POAImgFormat \<Rightarrow> ImageFormat" where
  "getImageFormat_switch POA_RAW8 = RAW8"
| "getImageFormat_switch POA_RAW16 = RAW16"
| "getImageFormat_switch POA_RGB24 = RGB888"
| "getImageFormat_switch POA_MONO8 = MONO8"
| "getImageFormat_switch POA_END = RAW8"

definition setImageFormat ::
  "'s sdk \<Rightarrow> POACamera \<Rightarrow> ImageFormat \<Rightarrow> 's world \<Rightarrow> (bool \<times> POACamera) \<times> 's world" where
  "setImageFormat sdk this imgFmt w =
     (let (r, w) = call sdk (POAGetCameraState (m_nCameraID this)) w;
          cameraState = out_state r;
          w = (if cameraState = STATE_EXPOSING
               then snd (call sdk (POAStopExposure (m_nCameraID this)) w) else w);
          poaImgFmt = setImageFormat_switch imgFmt;
          (r, w) = call sdk (POASetImageFormat (m_nCameraID this) poaImgFmt) w;
          error = status r
      in if error \<noteq> POA_OK
         then ((False, this),
               cerr (''set image format failed, error code: ''
                     @ POAGetErrorString sdk error @ endl) w)
         else ((True, this), w))"

definition getImageFormat ::
  "'s sdk \<Rightarrow> POACamera \<Rightarrow> 's world \<Rightarrow> (ImageFormat \<times> POACamera) \<times> 's world" where
  "getImageFormat sdk this w =
     (let (r, w) = call sdk (POAGetImageFormat (m_nCameraID this)) w;
          poaImgFmt = out_format r;
          error = status r;
          w = (if error \<noteq> POA_OK
               then cerr (''get image format failed, error code: ''
                          @ POAGetErrorString sdk error @ endl) w
               else w);
          imgFmt = getImageFormat_switch poaImgFmt
      in ((imgFmt, this), w))"

definition setExposure ::
  "'s sdk \<Rightarrow> POACamera \<Rightarrow> int \<Rightarrow> bool \<Rightarrow> 's world \<Rightarrow> (bool \<times> POACamera) \<times> 's world" where
  "setExposure sdk this expoUs isAuto w =
     (let exposValue = IntValue expoUs;
          (r, w) = call sdk (POASetConfig (m_nCameraID this) POA_EXPOSURE exposValue
                               (if isAuto then POA_TRUE else POA_FALSE)) w;
          error = status r
      in if error \<noteq> POA_OK
         then ((False, this),
               cerr (''set exposure failed, error code: '' @ POAGetErrorString sdk error @ endl) w)
         else ((True, this), w))"

definition getExposure :: "'s sdk \<Rightarrow> POACamera \<Rightarrow> 's world \<Rightarrow> (int \<times> POACamera) \<times> 's world" where
  "getExposure sdk this w =
     (let (r, w) = call sdk (POAGetConfig (m_nCameraID this) POA_EXPOSURE) w;
          exposValue = out_value r;
          error = status r
      in if error \<noteq> POA_OK
         then ((- 1, this),
               cerr (''get exposure failed, error code: '' @ POAGetErrorString sdk error @ endl) w)
         else ((intValue exposValue, this), w))"

definition setGain ::
  "'s sdk \<Rightarrow> POACamera \<Rightarrow> int \<Rightarrow> bool \<Rightarrow> 's world \<Rightarrow> (bool \<times> POACamera) \<times> 's world" where
  "setGain sdk this gain isAuto w =
     (let gainValue = IntValue gain;
          (r, w) = call sdk (POASetConfig (m_nCameraID this) POA_GAIN gainValue
                               (if isAuto then POA_TRUE else POA_FALSE)) w;
          error = status r
      in if error \<noteq> POA_OK
         then ((False, this),
               cerr (''set gain failed, error code: '' @ POAGetErrorString sdk error @ endl) w)
         else ((True, this), w))"

definition getGain :: "'s sdk \<Rightarrow> POACamera \<Rightarrow> 's world \<Rightarrow> (int \<times> POACamera) \<times> 's world" where
  "getGain sdk this w =
     (let (r, w) = call sdk (POAGetConfig (m_nCameraID this) POA_GAIN) w;
          gainValue = out_value r;
          error = status r
      in if error \<noteq> POA_OK
         then ((- 1, this),
               cerr (''get gain failed, error code: '' @ POAGetErrorString sdk error @ endl) w)
         else ((intValue gainValue, this), w))"

definition startExposure :: "'s sdk \<Rightarrow> POACamera \<Rightarrow> 's world \<Rightarrow> (bool \<times> POACamera) \<times> 's world" where
  "startExposure sdk this w =
     (let (r, w) = call sdk (POAStartExposure (m_nCameraID this) POA_FALSE) w;
          error = status r
      in if error \<noteq> POA_OK
         then ((False, this),
               cerr (''start exposure failed, error code: '' @ POAGetErrorString sdk error @ endl) w)
         else ((True, this), w))"

definition isImgDataAvailable ::
  "'s sdk \<Rightarrow> POACamera \<Rightarrow> 's world \<Rightarrow> (bool \<times> POACamera) \<times> 's world" where
  "isImgDataAvailable sdk this w =
     (let (r, w) = call sdk (POAImageReady (m_nCameraID this)) w;
          pIsReady = out_bool r;
          error = status r
      in if error \<noteq> POA_OK then ((False, this), w)
         else (((if pIsReady = POA_TRUE then True else False), this), w))"

text \<open>
  Modelled from the spec: the prototype of \<open>POAGetImageData\<close> is in the SDK header, which
  is not among the sources. It is taken as the C example calls it
  (\<open>long buffer_size\<close>, a time-out computed in \<open>int\<close>): the buffer size is a \<open>long\<close> and
  the time-out an \<open>int\<close>. So the \<open>unsigned long size\<close> of \<open>getImageData\<close> is converted to
  \<open>long\<close>, and the \<open>long\<close> result of \<open>exposureUs / 1000 + 500\<close> to \<open>int\<close>.
\<close>

definition getImageData ::
  "'s sdk \<Rightarrow> POACamera \<Rightarrow> byte list \<Rightarrow> 32 word \<Rightarrow> 's world
     \<Rightarrow> ((bool \<times> byte list) \<times> POACamera) \<times> 's world" where
  "getImageData sdk this pDataBuffer size' w =
     (let ((exposureUs, this), w) = getExposure sdk this w;
          (r, w) = call sdk (POAGetImageData (m_nCameraID this) (sint size')
                               (wrap32 (c_div exposureUs 1000 + 500))) w;
          error = status r;
          pDataBuffer = sdk_fill pDataBuffer (out_data r)
      in ((((if error = POA_OK then True else False), pDataBuffer), this), w))"

definition stopExposure :: "'s sdk \<Rightarrow> POACamera \<Rightarrow> 's world \<Rightarrow> (bool \<times> POACamera) \<times> 's world" where
  "stopExposure sdk this w =
     (let (r, w) = call sdk (POAStopExposure (m_nCameraID this)) w;
          error = status r
      in if error \<noteq> POA_OK
         then ((False, this),
               cerr (''stop exposure failed, error code: '' @ POAGetErrorString sdk error @ endl) w)
         else ((True, this), w))"

definition closeCamera :: "'s sdk \<Rightarrow> POACamera \<Rightarrow> 's world \<Rightarrow> (bool \<times> POACamera) \<times> 's world" where
  "closeCamera sdk this w =
     (let (r, w) = call sdk (POACloseCamera (m_nCameraID this)) w;
          error = status r
      in if error \<noteq> POA_OK
         then ((False, this),
               cerr (''clsoe camera failed, error code: '' @ POAGetErrorString sdk error @ endl) w)
         else ((True, this), w))"

definition getCameraID :: "POACamera \<Rightarrow> 's world \<Rightarrow> (int \<times> POACamera) \<times> 's world" where
  "getCameraID this w = ((m_nCameraID this, this), w)"

definition setCameraID :: "POACamera \<Rightarrow> int \<Rightarrow> 's world \<Rightarrow> (unit \<times> POACamera) \<times> 's world" where
  "setCameraID this nCameraID w = (((), this\<lparr>m_nCameraID := nCameraID\<rparr>), w)"

section \<open>Loops that may not end\<close>

text \<open>
  A loop whose exit depends on the SDK runs on fuel: one unit per iteration. When the fuel
  is used up the run stops where it is, with the world it has reached. A program ends
  exactly when some amount of fuel lets it reach \<open>Done\<close>.
\<close>

datatype ('a, 's) outcome = Done 'a "'s world" | OutOfFuel "'s world"

fun world_of :: "('a, 's) outcome \<Rightarrow> 's world" where
  "world_of (Done x w) = w"
| "world_of (OutOfFuel w) = w"

fun is_Done :: "('a, 's) outcome \<Rightarrow> bool" where
  "is_Done (Done x w) = True"
| "is_Done (OutOfFuel w) = False"

section \<open>main.cpp\<close>

fun main_print_loop :: "(int \<times> string) list \<Rightarrow> 's world \<Rightarrow> 's world" where
  "main_print_loop [] w = w"
| "main_print_loop (iter # rest) w =
     main_print_loop rest (cout (dec_int (fst iter) @ ''  '' @ snd iter @ endl) w)"

text \<open>Lines 34 to 76: open, initialise, configure, start the exposure.\<close>

definition main_setup ::
  "'s sdk \<Rightarrow> (double \<Rightarrow> string) \<Rightarrow> POACamera \<Rightarrow> 's world \<Rightarrow> POACamera \<times> 's world" where
  "main_setup sdk show_double pCamera w =
     (let ((ok, pCamera), w) = openCamera sdk pCamera w;
          w = (if \<not> ok then cout (''open camera failed!'' @ endl) w else w);
          ((ok, pCamera), w) = initCamera sdk pCamera w;
          w = (if \<not> ok then cout (''init camera failed!'' @ endl) w else w);
          ((u, pCamera), w) = getAllConfigAttributes sdk show_double pCamera w;
          ((ok, pCamera), w) = setImageSize sdk pCamera 800 480 w;
          w = (if \<not> ok then cout (''set image size failed!'' @ endl) w else w);
          ((ok, pCamera), w) = setImageStartPos sdk pCamera 100 100 w;
          w = (if \<not> ok then cout (''set start position failed!'' @ endl) w else w);
          ((ok, pCamera), w) = setImageFormat sdk pCamera RAW8 w;
          w = (if \<not> ok then cout (''set image format failed!'' @ endl) w else w);
          ((ok, pCamera), w) = setExposure sdk pCamera 100000 False w;
          w = (if \<not> ok then cout (''set exposure failed!'' @ endl) w else w);
          ((ok, pCamera), w) = setGain sdk pCamera 50 False w;
          w = (if \<not> ok then cout (''set gain failed!'' @ endl) w else w);
          ((ok, pCamera), w) = startExposure sdk pCamera w;
          w = (if \<not> ok then cout (''start exposure failed!'' @ endl) w else w)
      in (pCamera, w))"

text \<open>Lines 85 to 89: the wait for a frame.\<close>

fun main_poll_loop :: "nat \<Rightarrow> 's sdk \<Rightarrow> POACamera \<Rightarrow> 's world \<Rightarrow> (POACamera, 's) outcome" where
  "main_poll_loop 0 sdk pCamera w = OutOfFuel w"
| "main_poll_loop (Suc fuel) sdk pCamera w =
     (let ((avail, pCamera), w) = isImgDataAvailable sdk pCamera w
      in if \<not> avail then main_poll_loop fuel sdk pCamera w else Done pCamera w)"

text \<open>Lines 97 to 107: what one iteration does after a successful fetch.\<close>

definition main_save :: "byte list \<Rightarrow> int \<Rightarrow> 's world \<Rightarrow> 's world" where
  "main_save pDataBuffer img_cout w =
     (let fileName = dec_int img_cout @ ''_raw8_image_data.bin'';
          w = cout (''writing: '' @ fileName @ endl) w
      in emit (FileWrite fileName (take (800 * 480) pDataBuffer)) w)"

text \<open>Lines 83 to 108: the capture loop.\<close>

fun main_capture_loop ::
  "nat \<Rightarrow> 's sdk \<Rightarrow> POACamera \<Rightarrow> byte list \<Rightarrow> int \<Rightarrow> 's world
     \<Rightarrow> (POACamera \<times> byte list, 's) outcome" where
  "main_capture_loop 0 sdk pCamera pDataBuffer img_cout w =
     (if img_cout > 0 then OutOfFuel w else Done (pCamera, pDataBuffer) w)"
| "main_capture_loop (Suc fuel) sdk pCamera pDataBuffer img_cout w =
     (if img_cout > 0 then
        (case main_poll_loop (Suc fuel) sdk pCamera w of
           OutOfFuel w \<Rightarrow> OutOfFuel w
         | Done pCamera w \<Rightarrow>
             (let (((ok, pDataBuffer), pCamera), w) =
                     getImageData sdk pCamera pDataBuffer (800 * 480) w
              in if \<not> ok
                 then main_capture_loop fuel sdk pCamera pDataBuffer img_cout
                        (cout (''get image data failed!'' @ endl) w)
                 else main_capture_loop fuel sdk pCamera pDataBuffer (img_cout - 1)
                        (main_save pDataBuffer img_cout w)))
      else Done (pCamera, pDataBuffer) w)"

text \<open>
  \<open>new unsigned char[800 * 480]\<close>: the content of fresh memory is a parameter,
  \<open>uninit\<close>, that gives the byte at each offset.
\<close>

definition main_new_buffer :: "(nat \<Rightarrow> byte) \<Rightarrow> byte list" where
  "main_new_buffer uninit = map uninit [0..<800 * 480]"

definition main ::
  "nat \<Rightarrow> 's sdk \<Rightarrow> (double \<Rightarrow> string) \<Rightarrow> (nat \<Rightarrow> byte) \<Rightarrow> 's world \<Rightarrow> (int, 's) outcome" where
  "main fuel sdk show_double uninit w =
     (let (allCameraIDName, w) = getALLCameraIDName sdk w;
          w = main_print_loop allCameraIDName w
      in if length allCameraIDName > 0 then
           (let iter = hd allCameraIDName;
                pCamera = POACamera_new (fst iter);
                (pCamera, w) = main_setup sdk show_double pCamera w;
                pDataBuffer = main_new_buffer uninit;
                img_cout = 10
            in case main_capture_loop fuel sdk pCamera pDataBuffer img_cout w of
                 OutOfFuel w \<Rightarrow> OutOfFuel w
               | Done (pCamera, pDataBuffer) w \<Rightarrow>
                   (let ((ok, pCamera), w) = closeCamera sdk pCamera w;
                        w = cout (''camera closed!'' @ endl) w;
                        w = emit Getchar w
                    in Done 0 w))
         else Done 0 (emit Getchar w))"

section \<open>main.c\<close>

text \<open>
  The C example. Its \<open>int\<close> arithmetic wraps at 32 bits (\<open>wrap32\<close>); a division by zero, or of the
  least \<open>int\<close> by \<open>-1\<close>, stops the program. \<open>printf\<close> writes to the standard output;
  the text it prints for \<open>%lf\<close> is a parameter, \<open>printf_lf\<close>.
\<close>

definition div_traps :: "int \<Rightarrow> int \<Rightarrow> bool" where
  "div_traps a b = (b = 0 \<or> (a = - (2 ^ 31) \<and> b = - 1))"

definition printf :: "string \<Rightarrow> 's world \<Rightarrow> 's world" where
  "printf s w = emit (Cout s) w"

text \<open>The doubles \<open>0.1\<close> and \<open>5.0\<close>.\<close>

definition double_0_1 :: double where
  "double_0_1 = 0x3FB999999999999A"

definition double_5_0 :: double where
  "double_5_0 = 0x4014000000000000"

datatype 's c_result =
    Returned int "'s world"
  | Unfinished "'s world"
  | DivisionTrap "'s world"

fun c_world_of :: "'s c_result \<Rightarrow> 's world" where
  "c_world_of (Returned v w) = w"
| "c_world_of (Unfinished w) = w"
| "c_world_of (DivisionTrap w) = w"

text \<open>Lines 34 to 49: one property record per device, filled by the SDK.\<close>

fun c_properties_loop ::
  "'s sdk \<Rightarrow> int list \<Rightarrow> 's world \<Rightarrow> POACameraProperties list \<times> 's world" where
  "c_properties_loop sdk [] w = ([], w)"
| "c_properties_loop sdk (i # rest) w =
     (let (r, w) = call sdk (POAGetCameraProperties i) w;
          error = status r;
          prop = out_props r;
          w = (if error = POA_OK
               then (let w = printf (''camera ID: '' @ dec_int (cameraID prop)
                                     @ '', camera name: '' @ cameraModelName prop @ '' '' @ endl) w
                     in printf (''camera SN: '' @ SN prop @ '', camera Sensor Name: ''
                                @ sensorModelName prop @ '' '' @ endl) w)
               else printf (''get camera properties failed, index: '' @ dec_int i
                            @ '', error code: '' @ POAGetErrorString sdk error @ '' '' @ endl) w);
          (props, w) = c_properties_loop sdk rest w
      in (prop # props, w))"

text \<open>Lines 90 to 108: what is printed for one configuration attribute.\<close>

definition c_attributes_print ::
  "(double \<Rightarrow> string) \<Rightarrow> POAConfigAttributes \<Rightarrow> 's world \<Rightarrow> 's world" where
  "c_attributes_print printf_lf a w =
     (let w = printf endl w;
          w = printf (''config name: '' @ szConfName a @ '', config description: ''
                      @ szDescription a @ '' '' @ endl) w;
          w = printf (''is writable: '' @ dec_int (POABool_int (isWritable a)) @ '' '' @ endl) w;
          w = printf (''is readable: '' @ dec_int (POABool_int (isReadable a)) @ '' '' @ endl) w
      in if valueType a = VAL_INT
         then printf (''min: '' @ dec_int (intValue (minValue a))
                      @ '', max: '' @ dec_int (intValue (maxValue a))
                      @ '', default: '' @ dec_int (intValue (defaultValue a)) @ '' '' @ endl) w
         else if valueType a = VAL_FLOAT
         then printf (''min: '' @ printf_lf (floatValue (minValue a))
                      @ '', max: '' @ printf_lf (floatValue (maxValue a))
                      @ '', default: '' @ printf_lf (floatValue (defaultValue a)) @ '' '' @ endl) w
         else if valueType a = VAL_BOOL
         then printf (''default is on: '' @ dec_int (POABool_int (boolValue (defaultValue a)))
                      @ '' '' @ endl) w
         else w)"

text \<open>Lines 82 to 114.\<close>

fun c_attributes_loop ::
  "'s sdk \<Rightarrow> (double \<Rightarrow> string) \<Rightarrow> int \<Rightarrow> int list \<Rightarrow> 's world \<Rightarrow> 's world" where
  "c_attributes_loop sdk printf_lf cid [] w = w"
| "c_attributes_loop sdk printf_lf cid (i # rest) w =
     (let (r, w) = call sdk (POAGetConfigAttributes cid i) w;
          error = status r
      in if error = POA_OK
         then c_attributes_loop sdk printf_lf cid rest (c_attributes_print printf_lf (out_attrs r) w)
         else c_attributes_loop sdk printf_lf cid rest
                (printf (''get config attributes failed, index: '' @ dec_int i
                         @ '', error code: '' @ POAGetErrorString sdk error @ '' '' @ endl) w))"

text \<open>
  Lines 120 to 213: bin, region of interest, format, exposure and gain. The result is the
  width and height the program has asked for, or \<open>None\<close> when a division has trapped.
\<close>

definition c_set_parameters ::
  "'s sdk \<Rightarrow> POACameraProperties \<Rightarrow> 's world \<Rightarrow> (int \<times> int) option \<times> 's world" where
  "c_set_parameters sdk prop0 w =
     (let cid = cameraID prop0;
          (r, w) = call sdk (POAGetCameraState cid) w;
          cameraState = out_state r;
          w = (if cameraState = STATE_EXPOSING then snd (call sdk (POAStopExposure cid) w) else w);
          (r, w) = call sdk (POASetImageBin cid (bins prop0 1)) w;
          error = status r;
          w = (if error \<noteq> POA_OK
               then printf (''set bin failed, error code: '' @ POAGetErrorString sdk error
                            @ '' '' @ endl) w
               else w);
          (r, w) = call sdk (POAGetImageStartPos cid) w;
          error = status r;
          startX = (if error \<noteq> POA_OK then 0 else out_int1 r);
          startY = (if error \<noteq> POA_OK then 0 else out_int2 r);
          w = (if error \<noteq> POA_OK
               then printf (''Get Image Start Pos failed, error code: ''
                            @ POAGetErrorString sdk error @ '' '' @ endl) w
               else w);
          (r, w) = call sdk (POAGetImageSize cid) w;
          error = status r
      in if error \<noteq> POA_OK
            \<and> (div_traps (maxWidth prop0) (bins prop0 1) \<or> div_traps (maxHeight prop0) (bins prop0 1))
         then (None, w)
         else
           (let width = (if error \<noteq> POA_OK then c_div (maxWidth prop0) (bins prop0 1)
                         else out_int1 r);
                height = (if error \<noteq> POA_OK then c_div (maxHeight prop0) (bins prop0 1)
                          else out_int2 r);
                w = (if error \<noteq> POA_OK
                     then printf (''Get Image Size failed, error code: ''
                                  @ POAGetErrorString sdk error @ '' '' @ endl) w
                     else w);
                width = wrap32 (width - 50);
                height = wrap32 (height - 20);
                width = wrap32 (c_div width 4 * 4);
                height = wrap32 (c_div height 2 * 2);
                (r, w) = call sdk (POASetImageSize cid width height) w;
                error = status r;
                w = (if error \<noteq> POA_OK
                     then printf (''set resolution failed, error code: ''
                                  @ POAGetErrorString sdk error @ '' '' @ endl) w
                     else w);
                startX = wrap32 (startX + 20);
                startY = wrap32 (startY + 10);
                (r, w) = call sdk (POASetImageStartPos cid startX startY) w;
                error = status r;
                w = (if error \<noteq> POA_OK
                     then printf (''set start position failed, error code: ''
                                  @ POAGetErrorString sdk error @ '' '' @ endl) w
                     else w);
                (r, w) = call sdk (POASetImageFormat cid POA_RAW16) w;
                error = status r;
                w = (if error \<noteq> POA_OK
                     then printf (''set image format failed, error code: ''
                                  @ POAGetErrorString sdk error @ '' '' @ endl) w
                     else w);
                exposure_us = 100000;
                (r, w) = call sdk (POASetConfig cid POA_EXPOSURE (IntValue exposure_us) POA_FALSE) w;
                (r, w) = call sdk (POASetConfig cid POA_EXP (FloatValue double_0_1) POA_FALSE) w;
                error = status r;
                w = (if error \<noteq> POA_OK
                     then printf (''set exposure failed, error code: ''
                                  @ POAGetErrorString sdk error @ '' '' @ endl) w
                     else w);
                gain = 100;
                (r, w) = call sdk (POASetConfig cid POA_GAIN (IntValue gain) POA_FALSE) w;
                error = status r;
                w = (if error \<noteq> POA_OK
                     then printf (''set exposure failed, error code: ''
                                  @ POAGetErrorString sdk error @ '' '' @ endl) w
                     else w)
            in (Some (width, height), w)))"

text \<open>Lines 234 to 239, and again 334 to 341: the wait for a frame.\<close>

fun c_poll_loop :: "nat \<Rightarrow> 's sdk \<Rightarrow> int \<Rightarrow> 's world \<Rightarrow> (unit, 's) outcome" where
  "c_poll_loop 0 sdk cid w = OutOfFuel w"
| "c_poll_loop (Suc fuel) sdk cid w =
     (let (r, w) = call sdk (POAImageReady cid) w;
          pIsReady = out_bool r
      in if pIsReady = POA_FALSE then c_poll_loop fuel sdk cid w else Done () w)"

text \<open>
  Lines 248 to 260: what one iteration does after a successful fetch. \<open>fwrite\<close> is handed
  \<open>buffer_size\<close> bytes of the buffer.
\<close>

definition c_save :: "byte list \<Rightarrow> int \<Rightarrow> int \<Rightarrow> 's world \<Rightarrow> 's world" where
  "c_save data_buffer buffer_size img_cout w =
     (let str = dec_int img_cout @ ''_raw16_image_data.bin'';
          w = printf (''saving data: '' @ str @ '' '' @ endl) w
      in emit (FileWrite str (take (nat buffer_size) data_buffer)) w)"

text \<open>Lines 232 to 261: the capture loop.\<close>

fun c_capture_loop ::
  "nat \<Rightarrow> 's sdk \<Rightarrow> int \<Rightarrow> byte list \<Rightarrow> int \<Rightarrow> int \<Rightarrow> int \<Rightarrow> 's world
     \<Rightarrow> (byte list, 's) outcome" where
  "c_capture_loop 0 sdk cid data_buffer buffer_size exposure_us img_cout w =
     (if img_cout > 0 then OutOfFuel w else Done data_buffer w)"
| "c_capture_loop (Suc fuel) sdk cid data_buffer buffer_size exposure_us img_cout w =
     (if img_cout > 0 then
        (case c_poll_loop (Suc fuel) sdk cid w of
           OutOfFuel w \<Rightarrow> OutOfFuel w
         | Done u w \<Rightarrow>
             (let (r, w) = call sdk (POAGetImageData cid buffer_size
                                       (c_div exposure_us 1000 + 500)) w;
                  error = status r;
                  data_buffer = sdk_fill data_buffer (out_data r)
              in if error \<noteq> POA_OK
                 then c_capture_loop fuel sdk cid data_buffer buffer_size exposure_us img_cout
                        (printf (''get image data failed, error code: ''
                                 @ POAGetErrorString sdk error @ '' '' @ endl) w)
                 else c_capture_loop fuel sdk cid data_buffer buffer_size exposure_us
                        (img_cout - 1) (c_save data_buffer buffer_size img_cout w)))
      else Done data_buffer w)"

text \<open>Lines 285 to 293: the wait for the end of the single exposure.\<close>

fun c_state_loop :: "nat \<Rightarrow> 's sdk \<Rightarrow> int \<Rightarrow> 's world \<Rightarrow> (unit, 's) outcome" where
  "c_state_loop 0 sdk cid w = OutOfFuel w"
| "c_state_loop (Suc fuel) sdk cid w =
     (let (r, w) = call sdk (POAGetCameraState cid) w;
          cmeraState = out_state r
      in if cmeraState = STATE_EXPOSING then c_state_loop fuel sdk cid w else Done () w)"

text \<open>Lines 263 to 282: the start of the long single exposure.\<close>

definition c_snap_start :: "'s sdk \<Rightarrow> int \<Rightarrow> int \<Rightarrow> 's world \<Rightarrow> 's world" where
  "c_snap_start sdk cid exposure_us w =
     (let w = snd (call sdk (POAStopExposure cid) w);
          (r, w) = call sdk (POASetConfig cid POA_EXPOSURE (IntValue exposure_us) POA_FALSE) w;
          (r, w) = call sdk (POASetConfig cid POA_EXP (FloatValue double_5_0) POA_FALSE) w;
          error = status r;
          w = (if error \<noteq> POA_OK
               then printf (''set exposure failed, error code: ''
                            @ POAGetErrorString sdk error @ '' '' @ endl) w
               else w);
          w = printf (''start long exposure, single frame: '' @ endl) w;
          w = snd (call sdk (POAStartExposure cid POA_TRUE) w)
      in printf (''Please waiting 5s...: '' @ endl) w)"

text \<open>
  Lines 295 to 317: the frame of the single exposure, and the exposure time for the video
  mode.
\<close>

definition c_snap_read ::
  "'s sdk \<Rightarrow> int \<Rightarrow> byte list \<Rightarrow> int \<Rightarrow> int \<Rightarrow> 's world \<Rightarrow> byte list \<times> 's world" where
  "c_snap_read sdk cid data_buffer buffer_size exposure_us w =
     (let (r, w) = call sdk (POAImageReady cid) w;
          pIsReady = out_bool r;
          (data_buffer, w) =
            (if pIsReady = POA_TRUE
             then (let w = printf (''single frame exposure success '' @ endl) w;
                       (r, w) = call sdk (POAGetImageData cid buffer_size
                                            (c_div exposure_us 1000 + 500)) w;
                       error = status r;
                       w = (if error \<noteq> POA_OK
                            then printf (''get image data failed, error code: ''
                                         @ POAGetErrorString sdk error @ '' '' @ endl) w
                            else w)
                   in (sdk_fill data_buffer (out_data r), w))
             else (data_buffer, printf (''single frame exposure failed '' @ endl) w));
          exposure_us = 100000;
          (r, w) = call sdk (POASetConfig cid POA_EXPOSURE (IntValue exposure_us) POA_FALSE) w;
          w = printf (''set exposure to: '' @ dec_int (c_div exposure_us 1000) @ '' ms'' @ endl) w
      in (data_buffer, w))"

text \<open>Lines 263 to 317: the long single exposure, with the wait for its end.\<close>

definition c_snap ::
  "nat \<Rightarrow> 's sdk \<Rightarrow> int \<Rightarrow> byte list \<Rightarrow> int \<Rightarrow> 's world \<Rightarrow> (byte list, 's) outcome" where
  "c_snap fuel sdk cid data_buffer buffer_size w =
     (let exposure_us = 5000000;
          w = c_snap_start sdk cid exposure_us w
      in case c_state_loop fuel sdk cid w of
           OutOfFuel w \<Rightarrow> OutOfFuel w
         | Done u w \<Rightarrow>
             (let (data_buffer, w) = c_snap_read sdk cid data_buffer buffer_size exposure_us w
              in Done data_buffer w))"

text \<open>
  Lines 327 to 353: the video loop, which ends when \<open>count\<close> has passed 20. Its
  \<open>buffer_size\<close> is an \<open>unsigned long\<close>, read as a \<open>long\<close> by the SDK call.
\<close>

fun c_video_loop ::
  "nat \<Rightarrow> 's sdk \<Rightarrow> int \<Rightarrow> byte list \<Rightarrow> 32 word \<Rightarrow> int \<Rightarrow> int \<Rightarrow> 's world
     \<Rightarrow> (byte list, 's) outcome" where
  "c_video_loop 0 sdk cid data_buffer buffer_size exposure_us count w =
     (if count > 20 then Done data_buffer w else OutOfFuel w)"
| "c_video_loop (Suc fuel) sdk cid data_buffer buffer_size exposure_us count w =
     (if count > 20 then Done data_buffer w
      else
        (let count = count + 1;
             w = printf (''get image data: '' @ dec_int count @ '' '' @ endl) w
         in case c_poll_loop (Suc fuel) sdk cid w of
              OutOfFuel w \<Rightarrow> OutOfFuel w
            | Done u w \<Rightarrow>
                (let (r, w) = call sdk (POAGetImageData cid (sint buffer_size)
                                          (c_div exposure_us 1000 + 500)) w;
                     error = status r;
                     data_buffer = sdk_fill data_buffer (out_data r)
                 in if error \<noteq> POA_OK
                    then c_video_loop fuel sdk cid data_buffer buffer_size exposure_us count
                           (printf (''get image data failed, error code: ''
                                    @ POAGetErrorString sdk error @ '' '' @ endl) w)
                    else c_video_loop fuel sdk cid data_buffer buffer_size exposure_us count w)))"

text \<open>Lines 319 to 360: video mode, with a buffer of its own.\<close>

definition c_video ::
  "nat \<Rightarrow> 's sdk \<Rightarrow> (nat \<Rightarrow> byte) \<Rightarrow> int \<Rightarrow> int \<Rightarrow> int \<Rightarrow> 's world \<Rightarrow> (unit, 's) outcome" where
  "c_video fuel sdk uninit cid width' height' w =
     (let exposure_us = 100000;
          (r, w) = call sdk (POAStartExposure cid POA_FALSE) w;
          error = status r
      in case (if error = POA_OK
               then (let pixelBytes = 2;
                         buffer_size = word_of_int (wrap32 (wrap32 (width' * height') * pixelBytes));
                         data_buffer = map uninit [0..<unat buffer_size];
                         count = 0
                     in c_video_loop fuel sdk cid data_buffer buffer_size exposure_us count w)
               else Done [] (printf (''Video Mode: start exposure failed, error code: ''
                                     @ POAGetErrorString sdk error @ '' '' @ endl) w)) of
           OutOfFuel w \<Rightarrow> OutOfFuel w
         | Done b w \<Rightarrow> Done () (snd (call sdk (POAStopExposure cid) w)))"

text \<open>Lines 362 to 400: the cooler.\<close>

definition c_cooler :: "'s sdk \<Rightarrow> POACameraProperties \<Rightarrow> 's world \<Rightarrow> 's world" where
  "c_cooler sdk prop0 w =
     (let cid = cameraID prop0
      in if isHasCooler prop0 = POA_TRUE
         then (let w = snd (call sdk (POASetConfig cid POA_COOLER (BoolValue POA_TRUE) POA_FALSE) w);
                   w = printf (''Set cooler on! '' @ endl) w;
                   w = snd (call sdk (POASetConfig cid POA_FAN_POWER (IntValue 80) POA_FALSE) w);
                   w = printf (''Set fan power to '' @ dec_int 80 @ '' '' @ endl) w;
                   w = snd (call sdk (POASetConfig cid POA_HEATER_POWER (IntValue 30) POA_FALSE) w);
                   w = printf (''Set heater power to '' @ dec_int 30 @ '' '' @ endl) w;
                   (r, w) = call sdk (POAGetConfig cid POA_COOLER_POWER) w
               in printf (''Get current cool power '' @ dec_int (intValue (out_value r))
                          @ '' '' @ endl) w)
         else printf (''This camera is not cool camera '' @ endl) w)"

text \<open>Lines 415 to 421.\<close>

fun c_sensor_mode_loop :: "'s sdk \<Rightarrow> int \<Rightarrow> int list \<Rightarrow> 's world \<Rightarrow> 's world" where
  "c_sensor_mode_loop sdk cid [] w = w"
| "c_sensor_mode_loop sdk cid (ii # rest) w =
     (let (r, w) = call sdk (POAGetSensorModeInfo cid ii) w
      in c_sensor_mode_loop sdk cid rest
           (if status r = POA_OK
            then printf (''index: '' @ dec_int ii @ '', sensor mode name: '' @ mode_name (out_mode r)
                         @ '', description: '' @ mode_desc (out_mode r) @ '' '' @ endl) w
            else w))"

text \<open>Lines 402 to 433: the sensor mode.\<close>

definition c_sensor_mode :: "'s sdk \<Rightarrow> int \<Rightarrow> 's world \<Rightarrow> 's world" where
  "c_sensor_mode sdk cid w =
     (let (r, w) = call sdk (POAGetSensorModeCount cid) w;
          senModeCount = out_int1 r
      in if senModeCount \<le> 0
         then printf (''This camera does not support sensor mode setting '' @ endl) w
         else (let w = c_sensor_mode_loop sdk cid (map int [0..<nat senModeCount]) w;
                   (r, w) = call sdk (POAGetSensorMode cid) w;
                   modeIndex = out_int1 r;
                   w = printf (''Get current sensor mode index: '' @ dec_int modeIndex
                               @ '' '' @ endl) w;
                   modeIndex = 1;
                   w = snd (call sdk (POASetSensorMode cid modeIndex) w)
               in printf (''Set sensor mode index to '' @ dec_int modeIndex @ '' '' @ endl) w))"

text \<open>Lines 435 to 447: the end of the program.\<close>

definition c_close :: "'s sdk \<Rightarrow> int \<Rightarrow> 's world \<Rightarrow> 's world" where
  "c_close sdk cid w =
     (let w = snd (call sdk (POACloseCamera cid) w);
          w = printf (''camera closed! '' @ endl) w
      in emit Getchar w)"

text \<open>
  Lines 216 to 447: from the first buffer to the end, for the width and height that have
  been set. \<open>malloc\<close> is taken to succeed; a size below 1 gives a buffer without bytes.
\<close>

definition c_new_buffer :: "(nat \<Rightarrow> byte) \<Rightarrow> int \<Rightarrow> byte list" where
  "c_new_buffer uninit buffer_size = map uninit [0..<nat buffer_size]"

definition c_main_capture ::
  "nat \<Rightarrow> 's sdk \<Rightarrow> (nat \<Rightarrow> byte) \<Rightarrow> POACameraProperties \<Rightarrow> int \<Rightarrow> int \<Rightarrow> 's world
     \<Rightarrow> 's c_result" where
  "c_main_capture fuel sdk uninit prop0 width' height' w =
     (let cid = cameraID prop0;
          exposure_us = 100000;
          buffer_size = wrap32 (wrap32 (width' * height') * 2);
          data_buffer = c_new_buffer uninit buffer_size;
          (r, w) = call sdk (POAStartExposure cid POA_FALSE) w;
          error = status r;
          w = (if error \<noteq> POA_OK
               then printf (''start exposure failed, error code: ''
                            @ POAGetErrorString sdk error @ '' '' @ endl) w
               else w);
          img_cout = 10
      in case c_capture_loop fuel sdk cid data_buffer buffer_size exposure_us img_cout w of
           OutOfFuel w \<Rightarrow> Unfinished w
         | Done data_buffer w \<Rightarrow>
             (case c_snap fuel sdk cid data_buffer buffer_size w of
                OutOfFuel w \<Rightarrow> Unfinished w
              | Done data_buffer w \<Rightarrow>
                  (case c_video fuel sdk uninit cid width' height' w of
                     OutOfFuel w \<Rightarrow> Unfinished w
                   | Done u w \<Rightarrow>
                       (let w = c_cooler sdk prop0 w;
                            w = c_sensor_mode sdk cid w;
                            w = c_close sdk cid w
                        in Returned 0 w))))"

text \<open>Lines 11 to 448.\<close>

definition c_main ::
  "nat \<Rightarrow> 's sdk \<Rightarrow> (double \<Rightarrow> string) \<Rightarrow> (nat \<Rightarrow> byte) \<Rightarrow> 's world \<Rightarrow> 's c_result" where
  "c_main fuel sdk printf_lf uninit w =
     (let (r, w) = call sdk POAGetCameraCount w;
          camera_count = out_int1 r;
          w = printf (''camera count: '' @ dec_int camera_count @ endl) w
      in if camera_count \<le> 0
         then Returned 0 (emit Getchar (printf (''there is no Player One Camera!'' @ endl) w))
         else if camera_count > 0 then
           (let (ppPOACamProp, w) = c_properties_loop sdk (map int [0..<nat camera_count]) w;
                prop0 = hd ppPOACamProp;
                cid = cameraID prop0;
                (r, w) = call sdk (POAOpenCamera cid) w;
                error = status r
            in if error \<noteq> POA_OK
               then Returned 0 (printf (''Open camera failed'' @ fw_excl @ '', error code: ''
                                        @ POAGetErrorString sdk error @ '' '' @ endl) w)
               else
                 (let (r, w) = call sdk (POAInitCamera cid) w;
                      error = status r
                  in if error \<noteq> POA_OK
                     then Returned 0 (printf (''Init camera failed'' @ fw_excl @ '', error code: ''
                                              @ POAGetErrorString sdk error @ '' '' @ endl) w)
                     else
                       (let (r, w) = call sdk (POAGetConfigsCount cid) w;
                            error = status r;
                            config_count = out_int1 r
                        in if error \<noteq> POA_OK
                           then Returned 0 (printf (''Get config count failed'' @ fw_excl
                                                    @ '', error code: ''
                                                    @ POAGetErrorString sdk error @ '' '' @ endl) w)
                           else
                             (let w = c_attributes_loop sdk printf_lf cid
                                        (map int [0..<nat config_count]) w
                              in case c_set_parameters sdk prop0 w of
                                   (None, w) \<Rightarrow> DivisionTrap w
                                 | (Some (width', height'), w) \<Rightarrow>
                                     c_main_capture fuel sdk uninit prop0 width' height' w))))
         else Returned 0 (emit Getchar w))"

section \<open>Properties of runs\<close>

text \<open>What a step from world \<open>w\<close> to world \<open>w'\<close> has added to the trace.\<close>

definition new_events :: "'s world \<Rightarrow> 's world \<Rightarrow> event list" where
  "new_events w w' = drop (length (trace w)) (trace w')"

definition extends :: "'s world \<Rightarrow> 's world \<Rightarrow> bool" where
  "extends w w' = (take (length (trace w)) (trace w') = trace w)"

text \<open>The step only adds events, and each added event satisfies \<open>p\<close>.\<close>

definition adds :: "(event \<Rightarrow> bool) \<Rightarrow> 's world \<Rightarrow> 's world \<Rightarrow> bool" where
  "adds p w w' = (extends w w' \<and> list_all p (new_events w w'))"

text \<open>An SDK call forwards the camera ID \<open>cid\<close>; other events pass.\<close>

fun forwards :: "int \<Rightarrow> event \<Rightarrow> bool" where
  "forwards cid (Called c r) = (camera_arg c = Some cid)"
| "forwards cid e = True"

text \<open>
  A member function keeps the object as it is and hands \<open>m_nCameraID\<close> to every SDK
  call it makes.
\<close>

definition keeps_and_forwards ::
  "(POACamera \<Rightarrow> 's world \<Rightarrow> ('a \<times> POACamera) \<times> 's world) \<Rightarrow> bool" where
  "keeps_and_forwards f =
     (\<forall>this w. snd (fst (f this w)) = this
        \<and> adds (forwards (m_nCameraID this)) w (snd (f this w)))"

text \<open>An SDK call that takes no camera ID; other events pass.\<close>

fun passes_no_id :: "event \<Rightarrow> bool" where
  "passes_no_id (Called c r) = (camera_arg c = None)"
| "passes_no_id e = True"

text \<open>
  The replies the SDK gives when \<open>POAGetCameraProperties\<close> is called for the indices
  \<open>ixs\<close> in turn, starting in SDK state \<open>s\<close>; and the (camera ID, model name) pairs of
  those replies whose status is \<open>POA_OK\<close>, in index order.
\<close>

fun enumerate_replies :: "'s sdk \<Rightarrow> int list \<Rightarrow> 's \<Rightarrow> reply list" where
  "enumerate_replies sdk [] s = []"
| "enumerate_replies sdk (i # rest) s =
     (let (r, s') = respond sdk (POAGetCameraProperties i) s
      in r # enumerate_replies sdk rest s')"

definition successful_entries :: "reply list \<Rightarrow> (int \<times> string) list" where
  "successful_entries rs =
     map (\<lambda>r. (cameraID (out_props r), cameraModelName (out_props r)))
       (filter (\<lambda>r. status r = POA_OK) rs)"

text \<open>The SDK calls among some events, in order; and the events that are SDK calls.\<close>

fun calls_of :: "event list \<Rightarrow> sdk_call list" where
  "calls_of [] = []"
| "calls_of (Called c r # evs) = c # calls_of evs"
| "calls_of (e # evs) = calls_of evs"

fun is_call :: "event \<Rightarrow> bool" where
  "is_call (Called c r) = True"
| "is_call e = False"

definition ends_with :: "string \<Rightarrow> string \<Rightarrow> bool" where
  "ends_with s m = (length s \<le> length m \<and> drop (length m - length s) m = s)"


fun printf_line :: "(POAErrors \<Rightarrow> string) \<Rightarrow> POAErrors \<Rightarrow> event \<Rightarrow> bool" where
  "printf_line es st (Cout m) = ends_with (es st @ '' '' @ endl) m"
| "printf_line es st e = False"

text \<open>
  Error reporting: each call selected by \<open>sel\<close> that returns a status other than
  \<open>POA_OK\<close> is followed at once by a report of that status.
\<close>

fun reported_on ::
  "(sdk_call \<Rightarrow> bool) \<Rightarrow> (POAErrors \<Rightarrow> event \<Rightarrow> bool) \<Rightarrow> event list \<Rightarrow> bool" where
  "reported_on sel line [] = True"
| "reported_on sel line (Called c r # evs) =
     ((if sel c \<and> status r \<noteq> POA_OK
       then (case evs of [] \<Rightarrow> False | e # rest \<Rightarrow> line (status r) e)
       else True)
      \<and> reported_on sel line evs)"
| "reported_on sel line (e # evs) = reported_on sel line evs"

text \<open>
  A step that is one SDK call, a check of its status and a log line: the call \<open>c\<close> is the
  only new SDK call, the result \<open>ok\<close> tells whether its status is \<open>POA_OK\<close>, and a line
  on \<open>cerr\<close> that ends with the SDK's text for the status follows exactly when it is not.
\<close>

definition checked_call :: "'s sdk \<Rightarrow> sdk_call \<Rightarrow> 's world \<Rightarrow> bool \<Rightarrow> 's world \<Rightarrow> bool" where
  "checked_call sdk c w ok w' =
     (let (r, s') = respond sdk c (sdk_state w)
      in ok = (status r = POA_OK) \<and> sdk_state w' = s' \<and> extends w w'
         \<and> (if status r = POA_OK then new_events w w' = [Called c r]
            else (case new_events w w' of
                    [Called c' r', Cerr m] \<Rightarrow>
                      c' = c \<and> r' = r \<and> ends_with (POAGetErrorString sdk (status r) @ endl) m
                  | _ \<Rightarrow> False)))"

text \<open>
  A step that is one SDK call whose status goes to the caller and into no log line: the
  call \<open>c\<close> is the only new event, and \<open>ok\<close> tells whether its status is \<open>POA_OK\<close>.
\<close>

definition silent_call :: "'s sdk \<Rightarrow> sdk_call \<Rightarrow> 's world \<Rightarrow> bool \<Rightarrow> 's world \<Rightarrow> bool" where
  "silent_call sdk c w ok w' =
     (let (r, s') = respond sdk c (sdk_state w)
      in ok = (status r = POA_OK) \<and> sdk_state w' = s' \<and> extends w w'
         \<and> new_events w w' = [Called c r])"

text \<open>
  A step that reads the camera state and stops the exposure when the state read is
  \<open>STATE_EXPOSING\<close>: \<open>POAGetCameraState\<close>, then \<open>POAStopExposure\<close> in that case, are the
  only new events, whatever status they return.
\<close>

definition unchecked_stop :: "'s sdk \<Rightarrow> int \<Rightarrow> 's world \<Rightarrow> 's world \<Rightarrow> bool" where
  "unchecked_stop sdk cid w w' =
     (let (r, s1) = respond sdk (POAGetCameraState cid) (sdk_state w)
      in extends w w'
         \<and> (if out_state r = STATE_EXPOSING
            then (let (r2, s2) = respond sdk (POAStopExposure cid) s1
                  in sdk_state w' = s2
                     \<and> new_events w w'
                         = [Called (POAGetCameraState cid) r, Called (POAStopExposure cid) r2])
            else sdk_state w' = s1 \<and> new_events w w' = [Called (POAGetCameraState cid) r]))"

text \<open>
  Some events end settled when the last of them is not a selected call with a status
  other than \<open>POA_OK\<close>, that is, when no report is still due.
\<close>

definition settled :: "(sdk_call \<Rightarrow> bool) \<Rightarrow> event list \<Rightarrow> bool" where
  "settled sel evs =
     (if evs = [] then True
      else (case last evs of
              Called c r \<Rightarrow> (if sel c then status r = POA_OK else True)
            | _ \<Rightarrow> True))"

definition reports ::
  "(sdk_call \<Rightarrow> bool) \<Rightarrow> (POAErrors \<Rightarrow> event \<Rightarrow> bool) \<Rightarrow> 's world \<Rightarrow> 's world \<Rightarrow> bool" where
  "reports sel es w w' =
     (extends w w' \<and> reported_on sel es (new_events w w') \<and> settled sel (new_events w w'))"

text \<open>
  The replies to \<open>k\<close> successive calls of \<open>POAImageReady\<close>, starting in SDK state \<open>s\<close>;
  what the C++ wait and the C wait take for "a frame is ready"; and the part of a list
  up to and including the first element that satisfies \<open>p\<close>.
\<close>

fun poll_replies :: "'s sdk \<Rightarrow> int \<Rightarrow> nat \<Rightarrow> 's \<Rightarrow> reply list" where
  "poll_replies sdk cid 0 s = []"
| "poll_replies sdk cid (Suc k) s =
     (let (r, s') = respond sdk (POAImageReady cid) s in r # poll_replies sdk cid k s')"

definition cpp_ready :: "reply \<Rightarrow> bool" where
  "cpp_ready r = (status r = POA_OK \<and> out_bool r = POA_TRUE)"

definition c_ready :: "reply \<Rightarrow> bool" where
  "c_ready r = (out_bool r = POA_TRUE)"

fun take_until :: "('a \<Rightarrow> bool) \<Rightarrow> 'a list \<Rightarrow> 'a list" where
  "take_until p [] = []"
| "take_until p (x # xs) = (if p x then [x] else x # take_until p xs)"

text \<open>The files some events write, in order.\<close>

fun files_of :: "event list \<Rightarrow> (string \<times> byte list) list" where
  "files_of [] = []"
| "files_of (FileWrite f d # evs) = (f, d) # files_of evs"
| "files_of (e # evs) = files_of evs"

text \<open>The file names \<open>n\<close>, \<open>n - 1\<close>, ... (\<open>k\<close> of them), each followed by \<open>suffix\<close>.\<close>

fun countdown_names :: "string \<Rightarrow> int \<Rightarrow> nat \<Rightarrow> string list" where
  "countdown_names suffix n 0 = []"
| "countdown_names suffix n (Suc k) = (dec_int n @ suffix) # countdown_names suffix (n - 1) k"

text \<open>
  Raw files: replaying the events on a buffer that starts as \<open>buf\<close> and is filled by each
  \<open>POAGetImageData\<close> call, every file written holds exactly the buffer as it is then.
\<close>

fun fill_of :: "event \<Rightarrow> byte list \<Rightarrow> byte list" where
  "fill_of (Called (POAGetImageData c n t) r) buf = sdk_fill buf (out_data r)"
| "fill_of e buf = buf"

fun written_is :: "event \<Rightarrow> byte list \<Rightarrow> bool" where
  "written_is (FileWrite f d) buf = (d = buf)"
| "written_is e buf = True"

fun raw_files :: "byte list \<Rightarrow> event list \<Rightarrow> bool" where
  "raw_files buf [] = True"
| "raw_files buf (e # evs) = (written_is e buf \<and> raw_files (fill_of e buf) evs)"

fun buffer_after :: "byte list \<Rightarrow> event list \<Rightarrow> byte list" where
  "buffer_after buf [] = buf"
| "buffer_after buf (e # evs) = buffer_after (fill_of e buf) evs"

text \<open>
  An image fetch asks for \<open>n\<close> bytes; a call that sets the image size or format sets
  width \<open>x\<close>, height \<open>y\<close> and format \<open>f\<close>. Other events pass.
\<close>

fun fetch_size_is :: "int \<Rightarrow> event \<Rightarrow> bool" where
  "fetch_size_is n (Called (POAGetImageData c m t) r) = (m = n)"
| "fetch_size_is n e = True"

fun sets_geometry :: "int \<Rightarrow> int \<Rightarrow> POAImgFormat \<Rightarrow> event \<Rightarrow> bool" where
  "sets_geometry x y f (Called (POASetImageSize c x' y') r) = (x' = x \<and> y' = y)"
| "sets_geometry x y f (Called (POASetImageFormat c f') r) = (f' = f)"
| "sets_geometry x y f e = True"

text \<open>
  The pipeline of the C++ example: the step an event belongs to (console output belongs
  to none), which step may follow which, and the traces that keep to that order.
\<close>

datatype step = Enumerate | Open | Configure | Start | Poll | Copy | Persist | Close

fun step_of_call :: "sdk_call \<Rightarrow> step" where
  "step_of_call POAGetCameraCount = Enumerate"
| "step_of_call (POAGetCameraProperties i) = Enumerate"
| "step_of_call (POAOpenCamera c) = Open"
| "step_of_call (POAStartExposure c b) = Start"
| "step_of_call (POAImageReady c) = Poll"
| "step_of_call (POAGetConfig c k) = Copy"
| "step_of_call (POAGetImageData c n t) = Copy"
| "step_of_call (POACloseCamera c) = Close"
| "step_of_call c = Configure"

fun steps_of :: "event list \<Rightarrow> step list" where
  "steps_of [] = []"
| "steps_of (Called c r # evs) = step_of_call c # steps_of evs"
| "steps_of (FileWrite f d # evs) = Persist # steps_of evs"
| "steps_of (e # evs) = steps_of evs"

fun follows :: "step option \<Rightarrow> step \<Rightarrow> bool" where
  "follows None s = (s = Enumerate)"
| "follows (Some Enumerate) s = (s = Enumerate \<or> s = Open)"
| "follows (Some Open) s = (s = Configure)"
| "follows (Some Configure) s = (s = Configure \<or> s = Start)"
| "follows (Some Start) s = (s = Poll)"
| "follows (Some Poll) s = (s = Poll \<or> s = Copy)"
| "follows (Some Copy) s = (s = Copy \<or> s = Persist \<or> s = Poll)"
| "follows (Some Persist) s = (s = Poll \<or> s = Close)"
| "follows (Some Close) s = False"

fun in_order :: "step option \<Rightarrow> step list \<Rightarrow> bool" where
  "in_order q [] = True"
| "in_order q (s # ss) = (follows q s \<and> in_order (Some s) ss)"

fun last_step :: "step option \<Rightarrow> step list \<Rightarrow> step option" where
  "last_step q [] = q"
| "last_step q (s # ss) = last_step (Some s) ss"

text \<open>The trace of a world keeps to the pipeline and its last step is in \<open>Q\<close>.\<close>

definition at :: "step option set \<Rightarrow> 's world \<Rightarrow> bool" where
  "at Q w = (in_order None (steps_of (trace w)) \<and> last_step None (steps_of (trace w)) \<in> Q)"

text \<open>
  The SDK calls of \<open>main.cpp\<close> for the camera \<open>cid\<close>, with the arguments it passes:
  an event is a \<open>main_event\<close> when it is no SDK call or one of these.
\<close>

fun main_call :: "int \<Rightarrow> sdk_call \<Rightarrow> bool" where
  "main_call cid POAGetCameraCount = True"
| "main_call cid (POAGetCameraProperties i) = True"
| "main_call cid (POAOpenCamera c) = (c = cid)"
| "main_call cid (POAInitCamera c) = (c = cid)"
| "main_call cid (POAGetConfigsCount c) = (c = cid)"
| "main_call cid (POAGetConfigAttributes c i) = (c = cid)"
| "main_call cid (POAGetCameraState c) = (c = cid)"
| "main_call cid (POAStopExposure c) = (c = cid)"
| "main_call cid (POASetImageSize c x y) = (c = cid \<and> x = 800 \<and> y = 480)"
| "main_call cid (POASetImageStartPos c x y) = (c = cid \<and> x = 100 \<and> y = 100)"
| "main_call cid (POASetImageFormat c f) = (c = cid \<and> f = POA_RAW8)"
| "main_call cid (POASetConfig c k v a) =
     (c = cid \<and> a = POA_FALSE
      \<and> (if k = POA_EXPOSURE then v = IntValue 100000 else k = POA_GAIN \<and> v = IntValue 50))"
| "main_call cid (POAStartExposure c b) = (c = cid \<and> b = POA_FALSE)"
| "main_call cid (POAImageReady c) = (c = cid)"
| "main_call cid (POAGetConfig c k) = (c = cid \<and> k = POA_EXPOSURE)"
| "main_call cid (POAGetImageData c n t) = (c = cid \<and> n = 800 * 480)"
| "main_call cid (POACloseCamera c) = (c = cid)"
| "main_call cid c = False"

fun main_event :: "int \<Rightarrow> event \<Rightarrow> bool" where
  "main_event cid (Called c r) = main_call cid c"
| "main_event cid e = True"

text \<open>The camera \<open>main.cpp\<close> works with: the first key of the map, when there is one.\<close>

definition main_camera :: "'s sdk \<Rightarrow> 's world \<Rightarrow> int" where
  "main_camera sdk w = fst (hd (fst (getALLCameraIDName sdk w)))"

section \<open>Simulated SDKs for concrete runs\<close>

definition sim_value :: "int \<Rightarrow> POAConfigValue" where
  "sim_value i = \<lparr>intValue = i, floatValue = 0, boolValue = POA_FALSE\<rparr>"

definition sim_props :: "int \<Rightarrow> string \<Rightarrow> POACameraProperties" where
  "sim_props c name =
     \<lparr>cameraModelName = name, SN = ''SN0001'', sensorModelName = ''IMX462'', cameraID = c,
      maxWidth = 1944, maxHeight = 1096, bins = (\<lambda>i. if i < 4 then int i + 1 else 0),
      isHasCooler = POA_FALSE\<rparr>"

definition sim_attrs :: POAConfigAttributes where
  "sim_attrs =
     \<lparr>szConfName = ''Gain'', szDescription = ''gain'', isWritable = POA_TRUE,
      isReadable = POA_TRUE, valueType = VAL_INT, minValue = sim_value 0,
      maxValue = sim_value 500, defaultValue = sim_value 100\<rparr>"

definition sim_reply :: "POAErrors \<Rightarrow> reply" where
  "sim_reply e =
     \<lparr>status = e, out_int1 = 0, out_int2 = 0, out_bool = POA_FALSE, out_state = STATE_OPENED,
      out_format = POA_RAW8, out_props = sim_props 0 [], out_attrs = sim_attrs,
      out_value = sim_value 0, out_mode = \<lparr>mode_name = [], mode_desc = []\<rparr>,
      out_data = []\<rparr>"

definition sim_error_string :: "POAErrors \<Rightarrow> string" where
  "sim_error_string e = (case e of POA_OK \<Rightarrow> ''POA_OK'' | POA_ERROR n \<Rightarrow> ''POA_ERROR_'' @ dec_nat n)"

text \<open>
  A camera with ID 3 that works: every call succeeds, and a frame is ready at every
  second poll (the state counts the polls).
\<close>

fun good_respond :: "sdk_call \<Rightarrow> nat \<Rightarrow> reply \<times> nat" where
  "good_respond POAGetCameraCount s = ((sim_reply POA_OK)\<lparr>out_int1 := 1\<rparr>, s)"
| "good_respond (POAGetCameraProperties i) s =
     ((sim_reply POA_OK)\<lparr>out_props := sim_props 3 ''Mars-C''\<rparr>, s)"
| "good_respond (POAImageReady c) s =
     ((sim_reply POA_OK)\<lparr>out_bool := (if odd s then POA_TRUE else POA_FALSE)\<rparr>, Suc s)"
| "good_respond (POAGetConfig c k) s = ((sim_reply POA_OK)\<lparr>out_value := sim_value 100000\<rparr>, s)"
| "good_respond (POAGetImageData c n t) s =
     ((sim_reply POA_OK)\<lparr>out_data := replicate (nat n) 42\<rparr>, s)"
| "good_respond (POAGetImageSize c) s = ((sim_reply POA_OK)\<lparr>out_int1 := 972, out_int2 := 548\<rparr>, s)"
| "good_respond c s = (sim_reply POA_OK, s)"

definition good_sdk :: "nat sdk" where
  "good_sdk = \<lparr>respond = good_respond, POAGetErrorString = sim_error_string\<rparr>"

text \<open>An SDK that reports two devices and fails every other call with error 1.\<close>

definition broken_sdk :: "unit sdk" where
  "broken_sdk =
     \<lparr>respond = (\<lambda>c s. ((sim_reply (POA_ERROR 1))\<lparr>out_int1 := 2\<rparr>, s)),
      POAGetErrorString = sim_error_string\<rparr>"

text \<open>
  An SDK that reports \<open>n\<close> devices: index 0 is camera 5, index 2 is camera 2, and the
  properties of every other index cannot be read.
\<close>

definition shelf_sdk :: "int \<Rightarrow> unit sdk" where
  "shelf_sdk n =
     \<lparr>respond = (\<lambda>c s. case c of
          POAGetCameraCount \<Rightarrow> ((sim_reply POA_OK)\<lparr>out_int1 := n\<rparr>, s)
        | POAGetCameraProperties i \<Rightarrow>
            (if i = 0 then ((sim_reply POA_OK)\<lparr>out_props := sim_props 5 ''A''\<rparr>, s)
             else if i = 2 then ((sim_reply POA_OK)\<lparr>out_props := sim_props 2 ''B''\<rparr>, s)
             else (sim_reply (POA_ERROR 1), s))
        | _ \<Rightarrow> (sim_reply POA_OK, s)),
      POAGetErrorString = sim_error_string\<rparr>"

text \<open>An SDK whose every call succeeds and that reports a camera that is exposing.\<close>

definition busy_sdk :: "unit sdk" where
  "busy_sdk =
     \<lparr>respond = (\<lambda>c s. ((sim_reply POA_OK)\<lparr>out_state := STATE_EXPOSING\<rparr>, s)),
      POAGetErrorString = sim_error_string\<rparr>"

definition world0 :: "'s \<Rightarrow> 's world" where
  "world0 s = \<lparr>sdk_state = s, trace = []\<rparr>"

section \<open>Theorems\<close>

lemma adds_iff: "adds p w w' \<longleftrightarrow> (\<exists>evs. trace w' = trace w @ evs \<and> list_all p evs)"
proof
  assume a: "adds p w w'"
  have "take (length (trace w)) (trace w') @ drop (length (trace w)) (trace w') = trace w'"
    by (rule append_take_drop_id)
  with a have "trace w' = trace w @ new_events w w'"
    by (simp add: adds_def extends_def new_events_def)
  moreover from a have "list_all p (new_events w w')"
    by (simp add: adds_def)
  ultimately show "\<exists>evs. trace w' = trace w @ evs \<and> list_all p evs" by blast
next
  assume "\<exists>evs. trace w' = trace w @ evs \<and> list_all p evs"
  then show "adds p w w'"
    by (auto simp: adds_def extends_def new_events_def)
qed

lemma adds_refl [simp]: "adds p w w"
  by (simp add: adds_iff)

lemma adds_trans: "adds p w w1 \<Longrightarrow> adds p w1 w2 \<Longrightarrow> adds p w w2"
  by (auto simp: adds_iff)

lemma adds_mono: "adds p w w' \<Longrightarrow> (\<And>e. p e \<Longrightarrow> q e) \<Longrightarrow> adds q w w'"
  by (auto simp: adds_iff list_all_iff)

lemmas unfold_io = adds_iff call_def cerr_def cout_def emit_def Let_def

lemma adds_call: "call sdk c w = (r, w') \<Longrightarrow> p (Called c r) \<Longrightarrow> adds p w w'"
  by (auto simp: unfold_io split: prod.splits)

lemma adds_cerr: "p (Cerr s) \<Longrightarrow> adds p w (cerr s w)"
  by (simp add: unfold_io)

lemma adds_cout: "p (Cout s) \<Longrightarrow> adds p w (cout s w)"
  by (simp add: unfold_io)

lemma adds_emit: "p e \<Longrightarrow> adds p w (emit e w)"
  by (simp add: unfold_io)

subsection \<open>What each member function adds to the trace\<close>

lemma adds_getALLCameraIDName_loop:
  assumes "\<And>i r. p (Called (POAGetCameraProperties i) r)"
  shows "adds p w (snd (getALLCameraIDName_loop sdk ixs m w))"
proof (induction ixs arbitrary: m w)
  case Nil
  show ?case by simp
next
  case (Cons i ixs)
  obtain r w1 where c: "call sdk (POAGetCameraProperties i) w = (r, w1)"
    by (cases "call sdk (POAGetCameraProperties i) w")
  have "adds p w w1" using c assms by (rule adds_call)
  then show ?case
    using c Cons.IH [where w = w1] by (auto simp: Let_def intro: adds_trans)
qed

lemma adds_getALLCameraIDName:
  assumes "\<And>r. p (Called POAGetCameraCount r)" and "\<And>i r. p (Called (POAGetCameraProperties i) r)"
  shows "adds p w (snd (getALLCameraIDName sdk w))"
proof -
  obtain r w1 where c: "call sdk POAGetCameraCount w = (r, w1)"
    by (cases "call sdk POAGetCameraCount w")
  have "adds p w w1" using c assms(1) by (rule adds_call)
  then show ?thesis
    using c adds_getALLCameraIDName_loop [where p = p and w = w1, OF assms(2)]
    by (auto simp: getALLCameraIDName_def Let_def intro: adds_trans)
qed

lemma adds_openCamera:
  assumes "\<And>r. p (Called (POAOpenCamera (m_nCameraID this)) r)" and "\<And>s. p (Cerr s)"
  shows "adds p w (snd (openCamera sdk this w))"
  by (auto simp: openCamera_def unfold_io assms split: prod.splits)

lemma adds_initCamera:
  assumes "\<And>r. p (Called (POAInitCamera (m_nCameraID this)) r)" and "\<And>s. p (Cerr s)"
  shows "adds p w (snd (initCamera sdk this w))"
  by (auto simp: initCamera_def unfold_io assms split: prod.splits)

lemma adds_getAllConfigAttributes_print:
  assumes "\<And>s. p (Cout s)"
  shows "adds p w (getAllConfigAttributes_print sd a w)"
  by (auto simp: getAllConfigAttributes_print_def unfold_io assms)

lemma adds_getAllConfigAttributes_loop:
  assumes "\<And>i r. p (Called (POAGetConfigAttributes (m_nCameraID this) i) r)"
    and "\<And>s. p (Cerr s)" and "\<And>s. p (Cout s)"
  shows "adds p w (getAllConfigAttributes_loop sdk sd this ixs w)"
proof (induction ixs arbitrary: w)
  case Nil
  show ?case by simp
next
  case (Cons i ixs)
  obtain r w1 where c: "call sdk (POAGetConfigAttributes (m_nCameraID this) i) w = (r, w1)"
    by (cases "call sdk (POAGetConfigAttributes (m_nCameraID this) i) w")
  have 1: "adds p w w1" using c assms(1) by (rule adds_call)
  have 2: "adds p w1 (cerr s w1)" for s using assms(2) by (rule adds_cerr)
  have 3: "adds p w1 (getAllConfigAttributes_print sd a w1)" for a
    using assms(3) by (rule adds_getAllConfigAttributes_print)
  show ?case
    using c adds_trans [OF adds_trans [OF 1 2] Cons.IH] adds_trans [OF adds_trans [OF 1 3] Cons.IH]
    by (simp add: Let_def)
qed

lemma adds_getAllConfigAttributes:
  assumes "\<And>r. p (Called (POAGetConfigsCount (m_nCameraID this)) r)"
    and "\<And>i r. p (Called (POAGetConfigAttributes (m_nCameraID this) i) r)"
    and "\<And>s. p (Cerr s)" and "\<And>s. p (Cout s)"
  shows "adds p w (snd (getAllConfigAttributes sdk sd this w))"
proof -
  obtain r w1 where c: "call sdk (POAGetConfigsCount (m_nCameraID this)) w = (r, w1)"
    by (cases "call sdk (POAGetConfigsCount (m_nCameraID this)) w")
  have 1: "adds p w w1" using c assms(1) by (rule adds_call)
  have 2: "adds p w1 (cerr s w1)" for s using assms(3) by (rule adds_cerr)
  have 3: "adds p w1 (getAllConfigAttributes_loop sdk sd this ixs w1)" for ixs
    using assms(2-4) by (rule adds_getAllConfigAttributes_loop)
  show ?thesis
    using c adds_trans [OF 1 2] adds_trans [OF 1 3]
    by (simp add: getAllConfigAttributes_def Let_def)
qed

lemma adds_setROIArea:
  assumes "\<And>r. p (Called (POAGetCameraState (m_nCameraID this)) r)"
    and "\<And>r. p (Called (POAStopExposure (m_nCameraID this)) r)"
    and "\<And>r. p (Called (POASetImageSize (m_nCameraID this) (width a) (height a)) r)"
    and "\<And>r. p (Called (POASetImageStartPos (m_nCameraID this) (startX a) (startY a)) r)"
    and "\<And>s. p (Cerr s)"
  shows "adds p w (snd (setROIArea sdk this a w))"
  by (auto simp: setROIArea_def unfold_io assms split: prod.splits)

lemma adds_getROIArea:
  assumes "\<And>r. p (Called (POAGetImageStartPos (m_nCameraID this)) r)"
    and "\<And>r. p (Called (POAGetImageSize (m_nCameraID this)) r)"
    and "\<And>s. p (Cerr s)"
  shows "adds p w (snd (getROIArea sdk this w))"
  by (auto simp: getROIArea_def unfold_io assms split: prod.splits)

lemma adds_setImageSize:
  assumes "\<And>r. p (Called (POAGetCameraState (m_nCameraID this)) r)"
    and "\<And>r. p (Called (POAStopExposure (m_nCameraID this)) r)"
    and "\<And>r. p (Called (POASetImageSize (m_nCameraID this) x y) r)"
    and "\<And>s. p (Cerr s)"
  shows "adds p w (snd (setImageSize sdk this x y w))"
  by (auto simp: setImageSize_def unfold_io assms split: prod.splits)

lemma adds_setImageStartPos:
  assumes "\<And>r. p (Called (POASetImageStartPos (m_nCameraID this) x y) r)"
    and "\<And>s. p (Cerr s)"
  shows "adds p w (snd (setImageStartPos sdk this x y w))"
  by (auto simp: setImageStartPos_def unfold_io assms split: prod.splits)

lemma adds_setImageFormat:
  assumes "\<And>r. p (Called (POAGetCameraState (m_nCameraID this)) r)"
    and "\<And>r. p (Called (POAStopExposure (m_nCameraID this)) r)"
    and "\<And>r. p (Called (POASetImageFormat (m_nCameraID this) (setImageFormat_switch f)) r)"
    and "\<And>s. p (Cerr s)"
  shows "adds p w (snd (setImageFormat sdk this f w))"
  by (auto simp: setImageFormat_def unfold_io assms split: prod.splits)

lemma adds_getImageFormat:
  assumes "\<And>r. p (Called (POAGetImageFormat (m_nCameraID this)) r)"
    and "\<And>s. p (Cerr s)"
  shows "adds p w (snd (getImageFormat sdk this w))"
  by (auto simp: getImageFormat_def unfold_io assms split: prod.splits)

lemma adds_setExposure:
  assumes "\<And>b r. p (Called (POASetConfig (m_nCameraID this) POA_EXPOSURE (IntValue x) b) r)"
    and "\<And>s. p (Cerr s)"
  shows "adds p w (snd (setExposure sdk this x a w))"
  by (auto simp: setExposure_def unfold_io assms split: prod.splits)

lemma adds_getExposure:
  assumes "\<And>r. p (Called (POAGetConfig (m_nCameraID this) POA_EXPOSURE) r)"
    and "\<And>s. p (Cerr s)"
  shows "adds p w (snd (getExposure sdk this w))"
  by (auto simp: getExposure_def unfold_io assms split: prod.splits)

lemma adds_setGain:
  assumes "\<And>b r. p (Called (POASetConfig (m_nCameraID this) POA_GAIN (IntValue x) b) r)"
    and "\<And>s. p (Cerr s)"
  shows "adds p w (snd (setGain sdk this x a w))"
  by (auto simp: setGain_def unfold_io assms split: prod.splits)

lemma adds_getGain:
  assumes "\<And>r. p (Called (POAGetConfig (m_nCameraID this) POA_GAIN) r)"
    and "\<And>s. p (Cerr s)"
  shows "adds p w (snd (getGain sdk this w))"
  by (auto simp: getGain_def unfold_io assms split: prod.splits)

lemma adds_startExposure:
  assumes "\<And>r. p (Called (POAStartExposure (m_nCameraID this) POA_FALSE) r)"
    and "\<And>s. p (Cerr s)"
  shows "adds p w (snd (startExposure sdk this w))"
  by (auto simp: startExposure_def unfold_io assms split: prod.splits)

lemma adds_isImgDataAvailable:
  assumes "\<And>r. p (Called (POAImageReady (m_nCameraID this)) r)"
  shows "adds p w (snd (isImgDataAvailable sdk this w))"
  by (auto simp: isImgDataAvailable_def unfold_io assms split: prod.splits)

lemma adds_getImageData:
  assumes "\<And>r. p (Called (POAGetConfig (m_nCameraID this) POA_EXPOSURE) r)"
    and "\<And>t r. p (Called (POAGetImageData (m_nCameraID this) (sint n) t) r)"
    and "\<And>s. p (Cerr s)"
  shows "adds p w (snd (getImageData sdk this buf n w))"
  by (auto simp: getImageData_def getExposure_def unfold_io assms split: prod.splits)

lemma adds_stopExposure:
  assumes "\<And>r. p (Called (POAStopExposure (m_nCameraID this)) r)"
    and "\<And>s. p (Cerr s)"
  shows "adds p w (snd (stopExposure sdk this w))"
  by (auto simp: stopExposure_def unfold_io assms split: prod.splits)

lemma adds_closeCamera:
  assumes "\<And>r. p (Called (POACloseCamera (m_nCameraID this)) r)"
    and "\<And>s. p (Cerr s)"
  shows "adds p w (snd (closeCamera sdk this w))"
  by (auto simp: closeCamera_def unfold_io assms split: prod.splits)

subsection \<open>The object is passed through\<close>

lemma this_simple [simp]:
  "snd (fst (openCamera sdk this w)) = this"
  "snd (fst (initCamera sdk this w)) = this"
  "snd (fst (getAllConfigAttributes sdk sd this w)) = this"
  "snd (fst (setROIArea sdk this a w)) = this"
  "snd (fst (getROIArea sdk this w)) = this"
  "snd (fst (setImageSize sdk this x y w)) = this"
  "snd (fst (setImageStartPos sdk this x y w)) = this"
  "snd (fst (setImageFormat sdk this f w)) = this"
  "snd (fst (getImageFormat sdk this w)) = this"
  "snd (fst (setExposure sdk this e b w)) = this"
  "snd (fst (getExposure sdk this w)) = this"
  "snd (fst (setGain sdk this e b w)) = this"
  "snd (fst (getGain sdk this w)) = this"
  "snd (fst (startExposure sdk this w)) = this"
  "snd (fst (isImgDataAvailable sdk this w)) = this"
  "snd (fst (stopExposure sdk this w)) = this"
  "snd (fst (closeCamera sdk this w)) = this"
  "snd (fst (getCameraID this w)) = this"
  by (simp_all add: openCamera_def initCamera_def getAllConfigAttributes_def setROIArea_def
      getROIArea_def setImageSize_def setImageStartPos_def setImageFormat_def getImageFormat_def
      setExposure_def getExposure_def setGain_def getGain_def startExposure_def
      isImgDataAvailable_def stopExposure_def closeCamera_def getCameraID_def Let_def
      split: prod.splits)

lemma this_getImageData [simp]: "snd (fst (getImageData sdk this buf n w)) = this"
  by (simp add: getImageData_def getExposure_def Let_def split: prod.splits)

subsection \<open>The camera identifier\<close>

lemma kf_openCamera: "keeps_and_forwards (openCamera sdk)"
  unfolding keeps_and_forwards_def by (simp add: adds_openCamera)

lemma kf_getAllConfigAttributes: "keeps_and_forwards (getAllConfigAttributes sdk sd)"
  unfolding keeps_and_forwards_def by (simp add: adds_getAllConfigAttributes)

lemma kf_all:
  "keeps_and_forwards (initCamera sdk)"
  "keeps_and_forwards (\<lambda>this. setROIArea sdk this a)"
  "keeps_and_forwards (getROIArea sdk)"
  "keeps_and_forwards (\<lambda>this. setImageSize sdk this x y)"
  "keeps_and_forwards (\<lambda>this. setImageStartPos sdk this x y)"
  "keeps_and_forwards (\<lambda>this. setImageFormat sdk this f)"
  "keeps_and_forwards (getImageFormat sdk)"
  "keeps_and_forwards (\<lambda>this. setExposure sdk this e b)"
  "keeps_and_forwards (getExposure sdk)"
  "keeps_and_forwards (\<lambda>this. setGain sdk this e b)"
  "keeps_and_forwards (getGain sdk)"
  "keeps_and_forwards (startExposure sdk)"
  "keeps_and_forwards (isImgDataAvailable sdk)"
  "keeps_and_forwards (\<lambda>this. getImageData sdk this buf n)"
  "keeps_and_forwards (stopExposure sdk)"
  "keeps_and_forwards (closeCamera sdk)"
  unfolding keeps_and_forwards_def
  by (simp_all add: adds_initCamera adds_setROIArea adds_getROIArea adds_setImageSize
      adds_setImageStartPos adds_setImageFormat adds_getImageFormat adds_setExposure
      adds_getExposure adds_setGain adds_getGain adds_startExposure adds_isImgDataAvailable
      adds_getImageData adds_stopExposure adds_closeCamera)

lemma kf_getCameraID: "keeps_and_forwards getCameraID"
  unfolding keeps_and_forwards_def by (simp add: getCameraID_def)

text \<open>
  C7. Every member function of \<open>POACamera\<close> other than \<open>setCameraID\<close> and the
  constructors returns the object with \<open>m_nCameraID\<close> unchanged and passes
  \<open>m_nCameraID\<close> as the camera-ID argument of every SDK call it makes; the static
  \<open>getALLCameraIDName\<close> makes only calls that take no camera ID; and an object is
  determined by its \<open>m_nCameraID\<close>, the only field of the class.
\<close>

theorem camera_id_stored_and_forwarded:
  "keeps_and_forwards (openCamera sdk)
   \<and> keeps_and_forwards (initCamera sdk)
   \<and> keeps_and_forwards (getAllConfigAttributes sdk show_double)
   \<and> keeps_and_forwards (\<lambda>this. setROIArea sdk this roiArea)
   \<and> keeps_and_forwards (getROIArea sdk)
   \<and> keeps_and_forwards (\<lambda>this. setImageSize sdk this x y)
   \<and> keeps_and_forwards (\<lambda>this. setImageStartPos sdk this x y)
   \<and> keeps_and_forwards (\<lambda>this. setImageFormat sdk this imgFmt)
   \<and> keeps_and_forwards (getImageFormat sdk)
   \<and> keeps_and_forwards (\<lambda>this. setExposure sdk this v isAuto)
   \<and> keeps_and_forwards (getExposure sdk)
   \<and> keeps_and_forwards (\<lambda>this. setGain sdk this v isAuto)
   \<and> keeps_and_forwards (getGain sdk)
   \<and> keeps_and_forwards (startExposure sdk)
   \<and> keeps_and_forwards (isImgDataAvailable sdk)
   \<and> keeps_and_forwards (\<lambda>this. getImageData sdk this pDataBuffer n)
   \<and> keeps_and_forwards (stopExposure sdk)
   \<and> keeps_and_forwards (closeCamera sdk)
   \<and> keeps_and_forwards (getCameraID :: POACamera \<Rightarrow> 's world \<Rightarrow> (int \<times> POACamera) \<times> 's world)
   \<and> fst (fst (getCameraID this (w :: 's world))) = m_nCameraID this
   \<and> adds passes_no_id w (snd (getALLCameraIDName sdk w))
   \<and> (this :: POACamera) = \<lparr>m_nCameraID = m_nCameraID this\<rparr>"
  by (simp add: kf_openCamera kf_getAllConfigAttributes kf_all kf_getCameraID
      adds_getALLCameraIDName getCameraID_def)

theorem camera_id_stored_and_forwarded_witness:
  "snd (fst (getImageData good_sdk (POACamera_new 3) [] 0 (world0 0))) = POACamera_new 3
   \<and> map (\<lambda>e. case e of Called c r \<Rightarrow> camera_arg c | _ \<Rightarrow> None)
        (new_events (world0 0) (snd (getImageData good_sdk (POACamera_new 3) [] 0 (world0 0))))
      = [Some 3, Some 3]
   \<and> list_all (forwards 3)
        (new_events (world0 0) (snd (getImageData good_sdk (POACamera_new 3) [] 0 (world0 0))))"
  using camera_id_stored_and_forwarded
    [where sdk = good_sdk and pDataBuffer = "[]" and n = 0 and this = "POACamera_new 3"
       and w = "world0 0"]
  by (simp add: keeps_and_forwards_def adds_def POACamera_new_def getImageData_def
      getExposure_def call_def good_sdk_def world0_def new_events_def sim_reply_def Let_def)

subsection \<open>The image format mappings\<close>

text \<open>
  C8. The reverse mapping of \<open>getImageFormat\<close> undoes the forward mapping of
  \<open>setImageFormat\<close> on each of RAW8, RAW16, RGB888 and MONO8, and it maps the sentinel
  \<open>POA_END\<close> to RAW8. \<open>setImageFormat\<close> hands the forward image of its argument to
  \<open>POASetImageFormat\<close>, and \<open>getImageFormat\<close> returns the reverse image of what
  \<open>POAGetImageFormat\<close> has stored.
\<close>

theorem image_format_mappings_inverse:
  "getImageFormat_switch (setImageFormat_switch f) = f
   \<and> getImageFormat_switch POA_END = RAW8
   \<and> list_ex (\<lambda>e. case e of
          Called c r \<Rightarrow> c = POASetImageFormat (m_nCameraID this) (setImageFormat_switch f)
        | _ \<Rightarrow> False)
        (new_events w (snd (setImageFormat sdk this f w)))
   \<and> fst (fst (getImageFormat sdk this w))
       = getImageFormat_switch
           (out_format (fst (respond sdk (POAGetImageFormat (m_nCameraID this)) (sdk_state w))))"
proof -
  have 1: "getImageFormat_switch (setImageFormat_switch f) = f"
    by (cases f) simp_all
  have 2: "list_ex (\<lambda>e. case e of
          Called c r \<Rightarrow> c = POASetImageFormat (m_nCameraID this) (setImageFormat_switch f)
        | _ \<Rightarrow> False)
        (new_events w (snd (setImageFormat sdk this f w)))"
    by (auto simp: setImageFormat_def new_events_def call_def cerr_def emit_def Let_def
        split: prod.splits)
  have 3: "fst (fst (getImageFormat sdk this w))
       = getImageFormat_switch
           (out_format (fst (respond sdk (POAGetImageFormat (m_nCameraID this)) (sdk_state w))))"
    by (simp add: getImageFormat_def call_def Let_def split: prod.splits)
  from 1 2 3 show ?thesis by simp
qed

subsection \<open>The error sentinel of getExposure and getGain\<close>

text \<open>
  C9. \<open>getExposure\<close> and \<open>getGain\<close> return \<open>-1\<close> whenever \<open>POAGetConfig\<close> returns a
  status other than \<open>POA_OK\<close>, and the integer value the SDK has stored otherwise; so
  the result is \<open>-1\<close> exactly when the call failed or the stored value is \<open>-1\<close>.
\<close>

theorem exposure_gain_error_sentinel:
  assumes "fst (respond sdk (POAGetConfig (m_nCameraID this) POA_EXPOSURE) (sdk_state w)) = re"
    and "fst (respond sdk (POAGetConfig (m_nCameraID this) POA_GAIN) (sdk_state w)) = rg"
  shows "fst (fst (getExposure sdk this w))
           = (if status re \<noteq> POA_OK then - 1 else intValue (out_value re))
         \<and> fst (fst (getGain sdk this w))
           = (if status rg \<noteq> POA_OK then - 1 else intValue (out_value rg))
         \<and> ((fst (fst (getExposure sdk this w)) = - 1)
              = (status re \<noteq> POA_OK \<or> intValue (out_value re) = - 1))
         \<and> ((fst (fst (getGain sdk this w)) = - 1)
              = (status rg \<noteq> POA_OK \<or> intValue (out_value rg) = - 1))"
  using assms
  by (auto simp: getExposure_def getGain_def call_def Let_def split: prod.splits)

theorem exposure_gain_error_sentinel_witness:
  "fst (fst (getExposure good_sdk (POACamera_new 3) (world0 0))) = 100000
   \<and> fst (fst (getGain good_sdk (POACamera_new 3) (world0 0))) = 100000
   \<and> fst (fst (getExposure broken_sdk (POACamera_new 3) (world0 ()))) = - 1
   \<and> fst (fst (getGain broken_sdk (POACamera_new 3) (world0 ()))) = - 1"
proof -
  have g: "fst (good_respond (POAGetConfig 3 k) 0) = (sim_reply POA_OK)\<lparr>out_value := sim_value 100000\<rparr>"
    for k by simp
  have b: "fst (respond broken_sdk (POAGetConfig 3 k) ()) = (sim_reply (POA_ERROR 1))\<lparr>out_int1 := 2\<rparr>"
    for k by (simp add: broken_sdk_def)
  show ?thesis
    using exposure_gain_error_sentinel
      [where sdk = good_sdk and this = "POACamera_new 3" and w = "world0 0"
         and re = "(sim_reply POA_OK)\<lparr>out_value := sim_value 100000\<rparr>"
         and rg = "(sim_reply POA_OK)\<lparr>out_value := sim_value 100000\<rparr>"]
      exposure_gain_error_sentinel
      [where sdk = broken_sdk and this = "POACamera_new 3" and w = "world0 ()"
         and re = "(sim_reply (POA_ERROR 1))\<lparr>out_int1 := 2\<rparr>"
         and rg = "(sim_reply (POA_ERROR 1))\<lparr>out_int1 := 2\<rparr>"]
      g b
    by (simp add: good_sdk_def POACamera_new_def world0_def sim_reply_def sim_value_def)
qed

subsection \<open>Enumerating the cameras\<close>

lemma keys_map_insert: "fst ` set (map_insert (k, v) m) = insert k (fst ` set m)"
proof (induction m)
  case Nil
  show ?case by simp
next
  case (Cons a m)
  obtain k' v' where a: "a = (k', v')" by (cases a)
  show ?case using Cons.IH by (auto simp: a)
qed

lemma map_of_map_insert:
  "sorted_wrt (<) (map fst m)
     \<Longrightarrow> map_of (map_insert (k, v) m)
          = (case map_of m k of None \<Rightarrow> (map_of m)(k \<mapsto> v) | Some u \<Rightarrow> map_of m)"
proof (induction m)
  case Nil
  show ?case by simp
next
  case (Cons a m)
  obtain k' v' where a: "a = (k', v')" by (cases a)
  from Cons.prems have lt: "\<forall>x\<in>set m. k' < fst x" and s: "sorted_wrt (<) (map fst m)"
    by (auto simp: a)
  show ?case
  proof (cases "k < k'")
    case True
    with lt have "k \<notin> fst ` set m" by auto
    then have "map_of m k = None" by (simp add: map_of_eq_None_iff)
    with True show ?thesis by (auto simp: a)
  next
    case False
    show ?thesis
    proof (cases "k = k'")
      case True
      then show ?thesis by (simp add: a)
    next
      case ne: False
      with False Cons.IH [OF s] show ?thesis
        by (auto simp: a fun_eq_iff split: option.splits)
    qed
  qed
qed

lemma sorted_map_insert:
  "sorted_wrt (<) (map fst m) \<Longrightarrow> sorted_wrt (<) (map fst (map_insert (k, v) m))"
proof (induction m)
  case Nil
  show ?case by simp
next
  case (Cons a m)
  obtain k' v' where a: "a = (k', v')" by (cases a)
  from Cons.prems have lt: "\<forall>x\<in>set m. k' < fst x" and s: "sorted_wrt (<) (map fst m)"
    by (auto simp: a)
  have ks: "fst ` set (map_insert (k, v) m) = insert k (fst ` set m)"
    by (rule keys_map_insert)
  show ?case
  proof (cases "k < k'")
    case True
    with Cons.prems show ?thesis by (auto simp: a)
  next
    case False
    show ?thesis
    proof (cases "k = k'")
      case True
      with Cons.prems show ?thesis by (simp add: a)
    next
      case ne: False
      with False have "k' < k" by simp
      have "k' < fst x" if "x \<in> set (map_insert (k, v) m)" for x
      proof -
        from that have "fst x \<in> insert k (fst ` set m)" using ks by blast
        with lt \<open>k' < k\<close> show ?thesis by auto
      qed
      then have "\<forall>x\<in>set (map_insert (k, v) m). k' < fst x" by blast
      with False ne Cons.IH [OF s] show ?thesis by (simp add: a)
    qed
  qed
qed

lemma map_of_map_insert_add:
  "sorted_wrt (<) (map fst m) \<Longrightarrow> map_of (map_insert (k, v) m) = [k \<mapsto> v] ++ map_of m"
  by (auto simp: map_of_map_insert fun_eq_iff map_add_def split: option.splits)

lemma getALLCameraIDName_loop_map:
  "sorted_wrt (<) (map fst m)
     \<Longrightarrow> map_of (fst (getALLCameraIDName_loop sdk ixs m w))
          = map_of (successful_entries (enumerate_replies sdk ixs (sdk_state w))) ++ map_of m"
proof (induction ixs arbitrary: m w)
  case Nil
  show ?case by (simp add: successful_entries_def)
next
  case (Cons i ixs)
  obtain r s' where r: "respond sdk (POAGetCameraProperties i) (sdk_state w) = (r, s')"
    by (cases "respond sdk (POAGetCameraProperties i) (sdk_state w)")
  let ?w1 = "\<lparr>sdk_state = s', trace = trace w @ [Called (POAGetCameraProperties i) r]\<rparr>"
  let ?e = "(cameraID (out_props r), cameraModelName (out_props r))"
  show ?case
  proof (cases "status r = POA_OK")
    case True
    have s1: "sorted_wrt (<) (map fst (map_insert ?e m))"
      using Cons.prems by (rule sorted_map_insert)
    have step: "getALLCameraIDName_loop sdk (i # ixs) m w
                  = getALLCameraIDName_loop sdk ixs (map_insert ?e m) ?w1"
      using r True by (simp add: call_def Let_def)
    have ents: "successful_entries (enumerate_replies sdk (i # ixs) (sdk_state w))
                  = ?e # successful_entries (enumerate_replies sdk ixs s')"
      using r True by (simp add: successful_entries_def)
    have "map_of (fst (getALLCameraIDName_loop sdk ixs (map_insert ?e m) ?w1))
            = map_of (successful_entries (enumerate_replies sdk ixs s')) ++ map_of (map_insert ?e m)"
      using Cons.IH [OF s1, of ?w1] by simp
    also have "map_of (map_insert ?e m) = [fst ?e \<mapsto> snd ?e] ++ map_of m"
      using map_of_map_insert_add [OF Cons.prems, of "fst ?e" "snd ?e"] by simp
    also have "map_of (successful_entries (enumerate_replies sdk ixs s'))
                 ++ ([fst ?e \<mapsto> snd ?e] ++ map_of m)
               = map_of (?e # successful_entries (enumerate_replies sdk ixs s')) ++ map_of m"
      by (auto simp: fun_eq_iff map_add_def split: option.splits)
    finally show ?thesis
      unfolding step ents .
  next
    case False
    then show ?thesis
      using r Cons.IH [OF Cons.prems, of ?w1]
      by (simp add: call_def Let_def successful_entries_def)
  qed
qed

lemma getALLCameraIDName_loop_sorted:
  "sorted_wrt (<) (map fst m)
     \<Longrightarrow> sorted_wrt (<) (map fst (fst (getALLCameraIDName_loop sdk ixs m w)))"
proof (induction ixs arbitrary: m w)
  case Nil
  then show ?case by simp
next
  case (Cons i ixs)
  show ?case
    using Cons.prems Cons.IH sorted_map_insert [OF Cons.prems]
    by (simp add: Let_def split: prod.splits)
qed

lemma getALLCameraIDName_loop_trace:
  "trace (snd (getALLCameraIDName_loop sdk ixs m w))
     = trace w @ map (\<lambda>(i, r). Called (POAGetCameraProperties i) r)
                     (zip ixs (enumerate_replies sdk ixs (sdk_state w)))"
proof (induction ixs arbitrary: m w)
  case Nil
  show ?case by simp
next
  case (Cons i ixs)
  obtain r s' where r: "respond sdk (POAGetCameraProperties i) (sdk_state w) = (r, s')"
    by (cases "respond sdk (POAGetCameraProperties i) (sdk_state w)")
  show ?case
    using r Cons.IH by (simp add: call_def Let_def)
qed


text \<open>
  C10. \<open>getALLCameraIDName\<close> calls \<open>POAGetCameraCount\<close> once and then
  \<open>POAGetCameraProperties\<close> once for each index below the count, in ascending order, and
  writes no message, whatever the calls return. Camera IDs identify devices: when the IDs
  that the successful indices report are pairwise different, the entries of the returned
  map are exactly the (camera ID, model name) pairs of the indices whose call succeeds,
  one entry for each, and an index whose call fails adds nothing. The map is in ascending
  key order, and it is empty when the count is zero or less.
\<close>

theorem getALLCameraIDName_map:
  assumes "respond sdk POAGetCameraCount (sdk_state w) = (rc, s1)"
    and "replies = enumerate_replies sdk (map int [0..<nat (out_int1 rc)]) s1"
    and "getALLCameraIDName sdk w = (cameraIDName, w')"
    and "distinct (map fst (successful_entries replies))"
  shows "set cameraIDName = set (successful_entries replies)
         \<and> length cameraIDName = length (successful_entries replies)
         \<and> sorted_wrt (<) (map fst cameraIDName)
         \<and> new_events w w'
             = Called POAGetCameraCount rc
               # map (\<lambda>(i, r). Called (POAGetCameraProperties i) r)
                   (zip (map int [0..<nat (out_int1 rc)]) replies)
         \<and> (out_int1 rc \<le> 0 \<longrightarrow> cameraIDName = [])"
proof -
  let ?ixs = "map int [0..<nat (out_int1 rc)]"
  let ?w1 = "\<lparr>sdk_state = s1, trace = trace w @ [Called POAGetCameraCount rc]\<rparr>"
  have run: "getALLCameraIDName sdk w = getALLCameraIDName_loop sdk ?ixs [] ?w1"
    using assms(1) by (simp add: getALLCameraIDName_def call_def Let_def)
  with assms(3) have res: "cameraIDName = fst (getALLCameraIDName_loop sdk ?ixs [] ?w1)"
    and w': "w' = snd (getALLCameraIDName_loop sdk ?ixs [] ?w1)"
    by simp_all
  have m: "map_of cameraIDName = map_of (successful_entries replies)"
    unfolding res assms(2) using getALLCameraIDName_loop_map [of "[]" sdk ?ixs ?w1] by simp
  have s: "sorted_wrt (<) (map fst cameraIDName)"
    unfolding res using getALLCameraIDName_loop_sorted [of "[]" sdk ?ixs ?w1] by simp
  then have d: "distinct (map fst cameraIDName)"
    using strict_sorted_iff by blast
  have e: "set cameraIDName = set (successful_entries replies)"
    using map_of_inject_set [OF d assms(4)] m by simp
  have "distinct cameraIDName" "distinct (successful_entries replies)"
    using d assms(4) by (simp_all add: distinct_map)
  then have l: "length cameraIDName = length (successful_entries replies)"
    using e by (metis distinct_card)
  have t: "new_events w w'
             = Called POAGetCameraCount rc
               # map (\<lambda>(i, r). Called (POAGetCameraProperties i) r) (zip ?ixs replies)"
    unfolding w' assms(2) new_events_def
    by (simp add: getALLCameraIDName_loop_trace)
  have z: "cameraIDName = []" if "out_int1 rc \<le> 0"
    unfolding res using that by simp
  from e l s t z show ?thesis by blast
qed

theorem getALLCameraIDName_map_witness:
  "map status (enumerate_replies (shelf_sdk 3) [0, 1, 2] ()) = [POA_OK, POA_ERROR 1, POA_OK]
   \<and> successful_entries (enumerate_replies (shelf_sdk 3) [0, 1, 2] ()) = [(5, ''A''), (2, ''B'')]
   \<and> fst (getALLCameraIDName (shelf_sdk 3) (world0 ())) = [(2, ''B''), (5, ''A'')]
   \<and> set (fst (getALLCameraIDName (shelf_sdk 3) (world0 ()))) = {(5, ''A''), (2, ''B'')}
   \<and> length (fst (getALLCameraIDName (shelf_sdk 3) (world0 ()))) = 2
   \<and> calls_of (new_events (world0 ()) (snd (getALLCameraIDName (shelf_sdk 3) (world0 ()))))
       = [POAGetCameraCount, POAGetCameraProperties 0, POAGetCameraProperties 1,
          POAGetCameraProperties 2]
   \<and> list_all is_call (new_events (world0 ()) (snd (getALLCameraIDName (shelf_sdk 3) (world0 ()))))
   \<and> fst (getALLCameraIDName (shelf_sdk 0) (world0 ())) = []
   \<and> calls_of (new_events (world0 ()) (snd (getALLCameraIDName (shelf_sdk 0) (world0 ()))))
       = [POAGetCameraCount]"
proof -
  let ?rc = "\<lambda>n. (sim_reply POA_OK)\<lparr>out_int1 := n\<rparr>"
  let ?rs = "enumerate_replies (shelf_sdk 3) [0, 1, 2] ()"
  let ?run = "\<lambda>n. getALLCameraIDName (shelf_sdk n) (world0 ())"
  have 1: "respond (shelf_sdk n) POAGetCameraCount (sdk_state (world0 ())) = (?rc n, ())" for n
    by (simp add: shelf_sdk_def)
  have ix3: "map int [0..<nat (out_int1 (?rc 3))] = [0, 1, 2]"
    by (simp add: upt_rec)
  have ix0: "map int [0..<nat (out_int1 (?rc 0))] = []"
    by simp
  have 2: "?rs = enumerate_replies (shelf_sdk 3) (map int [0..<nat (out_int1 (?rc 3))]) ()"
    unfolding ix3 ..
  have 20: "[] = enumerate_replies (shelf_sdk 0) (map int [0..<nat (out_int1 (?rc 0))]) ()"
    unfolding ix0 by simp
  have 3: "?run n = (fst (?run n), snd (?run n))" for n
    by simp
  have st: "map status ?rs = [POA_OK, POA_ERROR 1, POA_OK]"
    by (simp add: shelf_sdk_def sim_reply_def)
  have se: "successful_entries ?rs = [(5, ''A''), (2, ''B'')]"
    by (simp add: successful_entries_def shelf_sdk_def sim_reply_def sim_props_def)
  have 4: "distinct (map fst (successful_entries ?rs))"
    unfolding se by simp
  have 40: "distinct (map fst (successful_entries []))"
    by (simp add: successful_entries_def)
  have v: "fst (?run 3) = [(2, ''B''), (5, ''A'')]"
    by (simp add: getALLCameraIDName_def shelf_sdk_def call_def world0_def sim_reply_def
        sim_props_def upt_rec)
  have ev: "map (\<lambda>(i, r). Called (POAGetCameraProperties i) r) (zip [0, 1, 2] ?rs)
              = [Called (POAGetCameraProperties 0) (?rs ! 0),
                 Called (POAGetCameraProperties 1) (?rs ! 1),
                 Called (POAGetCameraProperties 2) (?rs ! 2)]"
    by (simp add: shelf_sdk_def)
  show ?thesis
    using getALLCameraIDName_map [OF 1 2 3 4] getALLCameraIDName_map [OF 1 20 3 40]
    unfolding ix3 ix0 se ev
    using st v by simp
qed

subsection \<open>One call, one check, one log line\<close>

lemma ends_with_iff: "ends_with s m \<longleftrightarrow> (\<exists>p. m = p @ s)"
proof
  assume "ends_with s m"
  then have "m = take (length m - length s) m @ s"
    by (metis append_take_drop_id ends_with_def)
  then show "\<exists>p. m = p @ s" ..
next
  assume "\<exists>p. m = p @ s"
  then show "ends_with s m" by (auto simp: ends_with_def)
qed

lemma ends_with_Cons [simp]: "ends_with s (c # m) = (ends_with s m \<or> s = c # m)"
proof -
  have "(\<exists>p. c # m = p @ s) \<longleftrightarrow> ((\<exists>p. m = p @ s) \<or> s = c # m)"
    by (auto simp: Cons_eq_append_conv)
  then show ?thesis by (simp add: ends_with_iff)
qed

lemma ends_with_refl [simp]: "ends_with s s"
  by (simp add: ends_with_def)

lemma ends_with_appendI [simp]: "ends_with s m \<Longrightarrow> ends_with s (p @ m)"
  by (auto simp: ends_with_iff)

lemmas unfold_checked =
  checked_call_def extends_def new_events_def call_def cerr_def emit_def Let_def

lemma checked_openCamera:
  "checked_call sdk (POAOpenCamera (m_nCameraID this)) w
     (fst (fst (openCamera sdk this w))) (snd (openCamera sdk this w))"
  by (auto simp: openCamera_def unfold_checked split: prod.splits)

lemma checked_initCamera:
  "checked_call sdk (POAInitCamera (m_nCameraID this)) w
     (fst (fst (initCamera sdk this w))) (snd (initCamera sdk this w))"
  by (auto simp: initCamera_def unfold_checked split: prod.splits)

lemma checked_setImageStartPos:
  "checked_call sdk (POASetImageStartPos (m_nCameraID this) x y) w
     (fst (fst (setImageStartPos sdk this x y w))) (snd (setImageStartPos sdk this x y w))"
  by (auto simp: setImageStartPos_def unfold_checked split: prod.splits)

lemma checked_setExposure:
  "checked_call sdk (POASetConfig (m_nCameraID this) POA_EXPOSURE (IntValue v)
                       (if a then POA_TRUE else POA_FALSE)) w
     (fst (fst (setExposure sdk this v a w))) (snd (setExposure sdk this v a w))"
  by (cases a) (auto simp: setExposure_def unfold_checked split: prod.splits)

lemma checked_setGain:
  "checked_call sdk (POASetConfig (m_nCameraID this) POA_GAIN (IntValue v)
                       (if a then POA_TRUE else POA_FALSE)) w
     (fst (fst (setGain sdk this v a w))) (snd (setGain sdk this v a w))"
  by (cases a) (auto simp: setGain_def unfold_checked split: prod.splits)

lemma checked_startExposure:
  "checked_call sdk (POAStartExposure (m_nCameraID this) POA_FALSE) w
     (fst (fst (startExposure sdk this w))) (snd (startExposure sdk this w))"
  by (auto simp: startExposure_def unfold_checked split: prod.splits)

lemma checked_stopExposure:
  "checked_call sdk (POAStopExposure (m_nCameraID this)) w
     (fst (fst (stopExposure sdk this w))) (snd (stopExposure sdk this w))"
  by (auto simp: stopExposure_def unfold_checked split: prod.splits)

lemma checked_closeCamera:
  "checked_call sdk (POACloseCamera (m_nCameraID this)) w
     (fst (fst (closeCamera sdk this w))) (snd (closeCamera sdk this w))"
  by (auto simp: closeCamera_def unfold_checked split: prod.splits)

lemma events_isImgDataAvailable:
  "new_events w (snd (isImgDataAvailable sdk this w))
     = [Called (POAImageReady (m_nCameraID this))
          (fst (respond sdk (POAImageReady (m_nCameraID this)) (sdk_state w)))]"
  by (auto simp: isImgDataAvailable_def new_events_def call_def Let_def split: prod.splits)

lemma result_isImgDataAvailable:
  "fst (fst (isImgDataAvailable sdk this w))
     = (status (fst (respond sdk (POAImageReady (m_nCameraID this)) (sdk_state w))) = POA_OK
        \<and> out_bool (fst (respond sdk (POAImageReady (m_nCameraID this)) (sdk_state w))) = POA_TRUE)"
  by (auto simp: isImgDataAvailable_def call_def Let_def split: prod.splits)

lemma checked_callI:
  assumes "call sdk c w = (r, w1)"
    and "ends_with (POAGetErrorString sdk (status r) @ endl) m"
  shows "checked_call sdk c w (status r = POA_OK) (if status r \<noteq> POA_OK then cerr m w1 else w1)"
  using assms by (auto simp: unfold_checked split: prod.splits)

lemma silent_callI:
  assumes "call sdk c w = (r, w1)"
  shows "silent_call sdk c w (status r = POA_OK) w1"
  using assms
  by (auto simp: silent_call_def extends_def new_events_def call_def Let_def split: prod.splits)

lemma unchecked_stopI:
  assumes "call sdk (POAGetCameraState cid) w = (r, w1)"
  shows "unchecked_stop sdk cid w
           (if out_state r = STATE_EXPOSING then snd (call sdk (POAStopExposure cid) w1) else w1)"
  using assms
  by (auto simp: unchecked_stop_def extends_def new_events_def call_def Let_def split: prod.splits)

lemma steps_setImageSize:
  "\<exists>w1. unchecked_stop sdk (m_nCameraID this) w w1
     \<and> checked_call sdk (POASetImageSize (m_nCameraID this) x y) w1
         (fst (fst (setImageSize sdk this x y w))) (snd (setImageSize sdk this x y w))"
proof -
  obtain r w1 where c: "call sdk (POAGetCameraState (m_nCameraID this)) w = (r, w1)"
    by (cases "call sdk (POAGetCameraState (m_nCameraID this)) w")
  let ?w2 = "if out_state r = STATE_EXPOSING
             then snd (call sdk (POAStopExposure (m_nCameraID this)) w1) else w1"
  obtain r' w3 where c': "call sdk (POASetImageSize (m_nCameraID this) x y) ?w2 = (r', w3)"
    by (cases "call sdk (POASetImageSize (m_nCameraID this) x y) ?w2")
  let ?m = "''set resolution failed, error code: '' @ POAGetErrorString sdk (status r') @ endl"
  have 1: "unchecked_stop sdk (m_nCameraID this) w ?w2"
    using c by (rule unchecked_stopI)
  have 2: "checked_call sdk (POASetImageSize (m_nCameraID this) x y) ?w2 (status r' = POA_OK)
             (if status r' \<noteq> POA_OK then cerr ?m w3 else w3)"
    using c' by (rule checked_callI) simp
  have 3: "setImageSize sdk this x y w
             = ((status r' = POA_OK, this), if status r' \<noteq> POA_OK then cerr ?m w3 else w3)"
    using c c' by (simp add: setImageSize_def Let_def split: if_splits)
  from 1 2 show ?thesis unfolding 3 by auto
qed

lemma steps_setImageFormat:
  "\<exists>w1. unchecked_stop sdk (m_nCameraID this) w w1
     \<and> checked_call sdk (POASetImageFormat (m_nCameraID this) (setImageFormat_switch f)) w1
         (fst (fst (setImageFormat sdk this f w))) (snd (setImageFormat sdk this f w))"
proof -
  obtain r w1 where c: "call sdk (POAGetCameraState (m_nCameraID this)) w = (r, w1)"
    by (cases "call sdk (POAGetCameraState (m_nCameraID this)) w")
  let ?w2 = "if out_state r = STATE_EXPOSING
             then snd (call sdk (POAStopExposure (m_nCameraID this)) w1) else w1"
  obtain r' w3 where
    c': "call sdk (POASetImageFormat (m_nCameraID this) (setImageFormat_switch f)) ?w2 = (r', w3)"
    by (cases "call sdk (POASetImageFormat (m_nCameraID this) (setImageFormat_switch f)) ?w2")
  let ?m = "''set image format failed, error code: '' @ POAGetErrorString sdk (status r') @ endl"
  have 1: "unchecked_stop sdk (m_nCameraID this) w ?w2"
    using c by (rule unchecked_stopI)
  have 2: "checked_call sdk (POASetImageFormat (m_nCameraID this) (setImageFormat_switch f)) ?w2
             (status r' = POA_OK) (if status r' \<noteq> POA_OK then cerr ?m w3 else w3)"
    using c' by (rule checked_callI) simp
  have 3: "setImageFormat sdk this f w
             = ((status r' = POA_OK, this), if status r' \<noteq> POA_OK then cerr ?m w3 else w3)"
    using c c' by (simp add: setImageFormat_def Let_def split: if_splits)
  from 1 2 show ?thesis unfolding 3 by auto
qed

lemma steps_setROIArea:
  "\<exists>w1 ok1 w2. unchecked_stop sdk (m_nCameraID this) w w1
     \<and> checked_call sdk (POASetImageSize (m_nCameraID this) (width a) (height a)) w1 ok1 w2
     \<and> (if ok1
         then checked_call sdk (POASetImageStartPos (m_nCameraID this) (startX a) (startY a)) w2
                (fst (fst (setROIArea sdk this a w))) (snd (setROIArea sdk this a w))
         else fst (fst (setROIArea sdk this a w)) = False \<and> snd (setROIArea sdk this a w) = w2)"
proof -
  obtain r w1 where c: "call sdk (POAGetCameraState (m_nCameraID this)) w = (r, w1)"
    by (cases "call sdk (POAGetCameraState (m_nCameraID this)) w")
  let ?w2 = "if out_state r = STATE_EXPOSING
             then snd (call sdk (POAStopExposure (m_nCameraID this)) w1) else w1"
  obtain r' w3 where
    c': "call sdk (POASetImageSize (m_nCameraID this) (width a) (height a)) ?w2 = (r', w3)"
    by (cases "call sdk (POASetImageSize (m_nCameraID this) (width a) (height a)) ?w2")
  obtain r'' w4 where
    c'': "call sdk (POASetImageStartPos (m_nCameraID this) (startX a) (startY a)) w3 = (r'', w4)"
    by (cases "call sdk (POASetImageStartPos (m_nCameraID this) (startX a) (startY a)) w3")
  let ?m = "''set resolution failed, error code: '' @ POAGetErrorString sdk (status r') @ endl"
  let ?m' = "''set start position failed, error code: ''
             @ POAGetErrorString sdk (status r'') @ endl"
  let ?w3 = "if status r' \<noteq> POA_OK then cerr ?m w3 else w3"
  have 1: "unchecked_stop sdk (m_nCameraID this) w ?w2"
    using c by (rule unchecked_stopI)
  have 2: "checked_call sdk (POASetImageSize (m_nCameraID this) (width a) (height a)) ?w2
             (status r' = POA_OK) ?w3"
    using c' by (rule checked_callI) simp
  have 3: "checked_call sdk (POASetImageStartPos (m_nCameraID this) (startX a) (startY a)) w3
             (status r'' = POA_OK) (if status r'' \<noteq> POA_OK then cerr ?m' w4 else w4)"
    using c'' by (rule checked_callI) simp
  have 4: "setROIArea sdk this a w = ((False, this), ?w3)" if "status r' \<noteq> POA_OK"
    using c c' that by (simp add: setROIArea_def Let_def split: if_splits)
  have 5: "setROIArea sdk this a w
             = ((status r'' = POA_OK, this), if status r'' \<noteq> POA_OK then cerr ?m' w4 else w4)"
    if "status r' = POA_OK"
    using c c' c'' that by (simp add: setROIArea_def Let_def split: if_splits)
  show ?thesis
  proof (cases "status r' = POA_OK")
    case True
    have "unchecked_stop sdk (m_nCameraID this) w ?w2
       \<and> checked_call sdk (POASetImageSize (m_nCameraID this) (width a) (height a)) ?w2 True w3
       \<and> (if True
           then checked_call sdk (POASetImageStartPos (m_nCameraID this) (startX a) (startY a)) w3
                  (fst (fst (setROIArea sdk this a w))) (snd (setROIArea sdk this a w))
           else fst (fst (setROIArea sdk this a w)) = False \<and> snd (setROIArea sdk this a w) = w3)"
      using 1 2 3 True unfolding 5 [OF True] by simp
    then show ?thesis by blast
  next
    case False
    have "unchecked_stop sdk (m_nCameraID this) w ?w2
       \<and> checked_call sdk (POASetImageSize (m_nCameraID this) (width a) (height a)) ?w2 False ?w3
       \<and> (if False
           then checked_call sdk (POASetImageStartPos (m_nCameraID this) (startX a) (startY a)) ?w3
                  (fst (fst (setROIArea sdk this a w))) (snd (setROIArea sdk this a w))
           else fst (fst (setROIArea sdk this a w)) = False \<and> snd (setROIArea sdk this a w) = ?w3)"
      using 1 2 False unfolding 4 [OF False] by simp
    then show ?thesis by blast
  qed
qed

lemma checked_getExposure:
  "checked_call sdk (POAGetConfig (m_nCameraID this) POA_EXPOSURE) w
     (status (fst (respond sdk (POAGetConfig (m_nCameraID this) POA_EXPOSURE) (sdk_state w))) = POA_OK)
     (snd (getExposure sdk this w))"
  by (auto simp: getExposure_def unfold_checked split: prod.splits)

lemma steps_getImageData:
  "silent_call sdk
     (POAGetImageData (m_nCameraID this) (sint n)
        (wrap32 (c_div (fst (fst (getExposure sdk this w))) 1000 + 500)))
     (snd (getExposure sdk this w))
     (fst (fst (fst (getImageData sdk this buf n w)))) (snd (getImageData sdk this buf n w))"
proof -
  obtain v c1 w1 where g: "getExposure sdk this w = ((v, c1), w1)"
    by (cases "getExposure sdk this w") auto
  have c1: "c1 = this" using this_simple(11) [of sdk this w] g by simp
  obtain r w2 where
    c: "call sdk (POAGetImageData (m_nCameraID this) (sint n) (wrap32 (c_div v 1000 + 500))) w1
          = (r, w2)"
    by (cases "call sdk (POAGetImageData (m_nCameraID this) (sint n)
                           (wrap32 (c_div v 1000 + 500))) w1")
  have 1: "getImageData sdk this buf n w
             = (((status r = POA_OK, sdk_fill buf (out_data r)), this), w2)"
    using g c c1 by (simp add: getImageData_def Let_def)
  show ?thesis
    unfolding 1 g using silent_callI [OF c] by simp
qed


text \<open>
  The claim as stated fails. \<open>getImageData\<close> makes two SDK calls, \<open>setImageFormat\<close> and
  \<open>setImageSize\<close> at least two and \<open>setROIArea\<close> at least three. A successful
  \<open>openCamera\<close> writes no log line. When every call fails, \<open>isImgDataAvailable\<close> writes
  nothing, \<open>getImageData\<close> writes nothing after the failed \<open>POAGetImageData\<close>, and
  \<open>setImageFormat\<close> writes nothing after the failed \<open>POAGetCameraState\<close>.
\<close>

theorem wrapper_single_call_counterexample:
  "calls_of (new_events (world0 0) (snd (getImageData good_sdk (POACamera_new 3) [] 384000 (world0 0))))
     = [POAGetConfig 3 POA_EXPOSURE, POAGetImageData 3 384000 600]
   \<and> calls_of (new_events (world0 0) (snd (setImageFormat good_sdk (POACamera_new 3) RAW8 (world0 0))))
     = [POAGetCameraState 3, POASetImageFormat 3 POA_RAW8]
   \<and> calls_of (new_events (world0 0) (snd (setImageSize good_sdk (POACamera_new 3) 800 480 (world0 0))))
     = [POAGetCameraState 3, POASetImageSize 3 800 480]
   \<and> calls_of (new_events (world0 0) (snd (setROIArea good_sdk (POACamera_new 3) ROIArea_new (world0 0))))
     = [POAGetCameraState 3, POASetImageSize 3 0 0, POASetImageStartPos 3 0 0]
   \<and> new_events (world0 0) (snd (openCamera good_sdk (POACamera_new 3) (world0 0)))
     = [Called (POAOpenCamera 3) (sim_reply POA_OK)]
   \<and> new_events (world0 ()) (snd (isImgDataAvailable broken_sdk (POACamera_new 3) (world0 ())))
     = [Called (POAImageReady 3) ((sim_reply (POA_ERROR 1))\<lparr>out_int1 := 2\<rparr>)]
   \<and> new_events (world0 ()) (snd (getImageData broken_sdk (POACamera_new 3) [] 384000 (world0 ())))
     = [Called (POAGetConfig 3 POA_EXPOSURE) ((sim_reply (POA_ERROR 1))\<lparr>out_int1 := 2\<rparr>),
        Cerr (''get exposure failed, error code: POA_ERROR_1'' @ endl),
        Called (POAGetImageData 3 384000 500) ((sim_reply (POA_ERROR 1))\<lparr>out_int1 := 2\<rparr>)]
   \<and> new_events (world0 ()) (snd (setImageFormat broken_sdk (POACamera_new 3) RAW8 (world0 ())))
     = [Called (POAGetCameraState 3) ((sim_reply (POA_ERROR 1))\<lparr>out_int1 := 2\<rparr>),
        Called (POASetImageFormat 3 POA_RAW8) ((sim_reply (POA_ERROR 1))\<lparr>out_int1 := 2\<rparr>),
        Cerr (''set image format failed, error code: POA_ERROR_1'' @ endl)]"
  by (simp add: getImageData_def getExposure_def setImageFormat_def setImageSize_def
      setROIArea_def openCamera_def isImgDataAvailable_def ROIArea_new_def
      new_events_def call_def cerr_def emit_def good_sdk_def broken_sdk_def world0_def
      POACamera_new_def sim_reply_def sim_value_def sim_error_string_def dec_nat.simps
      c_div_def wrap32_def Let_def)

text \<open>
  C2 (amended). Each of \<open>openCamera\<close>, \<open>initCamera\<close>, \<open>setImageStartPos\<close>,
  \<open>setExposure\<close>, \<open>setGain\<close>, \<open>startExposure\<close>, \<open>stopExposure\<close> and \<open>closeCamera\<close>
  makes exactly one SDK call, returns whether its status is \<open>POA_OK\<close>, and writes a log
  line, on \<open>cerr\<close> and ending with the SDK's text for the status, exactly when it is not.
  \<open>isImgDataAvailable\<close> makes exactly one SDK call, \<open>POAImageReady\<close>, returns whether
  its status is \<open>POA_OK\<close> and the flag is set, and writes no log line.
  \<open>setImageSize\<close> and \<open>setImageFormat\<close> first call \<open>POAGetCameraState\<close>, and
  \<open>POAStopExposure\<close> when the state read is \<open>STATE_EXPOSING\<close>, without a check or a log
  line; then they make their set call, return whether its status is \<open>POA_OK\<close> and write a
  log line exactly when it is not. \<open>setROIArea\<close> starts in the same way, then does so
  for \<open>POASetImageSize\<close> and, when that has succeeded, for \<open>POASetImageStartPos\<close>; when
  it has failed, \<open>setROIArea\<close> returns false after the log line. \<open>getImageData\<close> first
  calls \<open>POAGetConfig\<close> for the exposure, with a log line exactly when its status is not
  \<open>POA_OK\<close>; then it calls \<open>POAGetImageData\<close> with the size converted to \<open>long\<close> and
  the time-out \<open>exposure / 1000 + 500\<close>, returns whether the status of that call is
  \<open>POA_OK\<close>, and writes no log line for it.
\<close>

theorem wrapper_operations_call_check_log:
  "checked_call sdk (POAOpenCamera (m_nCameraID this)) w
     (fst (fst (openCamera sdk this w))) (snd (openCamera sdk this w))
   \<and> checked_call sdk (POAInitCamera (m_nCameraID this)) w
       (fst (fst (initCamera sdk this w))) (snd (initCamera sdk this w))
   \<and> checked_call sdk (POASetImageStartPos (m_nCameraID this) x y) w
       (fst (fst (setImageStartPos sdk this x y w))) (snd (setImageStartPos sdk this x y w))
   \<and> checked_call sdk (POASetConfig (m_nCameraID this) POA_EXPOSURE (IntValue v)
                         (if isAuto then POA_TRUE else POA_FALSE)) w
       (fst (fst (setExposure sdk this v isAuto w))) (snd (setExposure sdk this v isAuto w))
   \<and> checked_call sdk (POASetConfig (m_nCameraID this) POA_GAIN (IntValue v)
                         (if isAuto then POA_TRUE else POA_FALSE)) w
       (fst (fst (setGain sdk this v isAuto w))) (snd (setGain sdk this v isAuto w))
   \<and> checked_call sdk (POAStartExposure (m_nCameraID this) POA_FALSE) w
       (fst (fst (startExposure sdk this w))) (snd (startExposure sdk this w))
   \<and> checked_call sdk (POAStopExposure (m_nCameraID this)) w
       (fst (fst (stopExposure sdk this w))) (snd (stopExposure sdk this w))
   \<and> checked_call sdk (POACloseCamera (m_nCameraID this)) w
       (fst (fst (closeCamera sdk this w))) (snd (closeCamera sdk this w))
   \<and> new_events w (snd (isImgDataAvailable sdk this w))
       = [Called (POAImageReady (m_nCameraID this))
            (fst (respond sdk (POAImageReady (m_nCameraID this)) (sdk_state w)))]
   \<and> fst (fst (isImgDataAvailable sdk this w))
       = (status (fst (respond sdk (POAImageReady (m_nCameraID this)) (sdk_state w))) = POA_OK
          \<and> out_bool (fst (respond sdk (POAImageReady (m_nCameraID this)) (sdk_state w)))
              = POA_TRUE)
   \<and> (\<exists>w1. unchecked_stop sdk (m_nCameraID this) w w1
         \<and> checked_call sdk (POASetImageSize (m_nCameraID this) x y) w1
             (fst (fst (setImageSize sdk this x y w))) (snd (setImageSize sdk this x y w)))
   \<and> (\<exists>w1. unchecked_stop sdk (m_nCameraID this) w w1
         \<and> checked_call sdk (POASetImageFormat (m_nCameraID this) (setImageFormat_switch imgFmt))
             w1 (fst (fst (setImageFormat sdk this imgFmt w)))
             (snd (setImageFormat sdk this imgFmt w)))
   \<and> (\<exists>w1 ok1 w2. unchecked_stop sdk (m_nCameraID this) w w1
         \<and> checked_call sdk (POASetImageSize (m_nCameraID this) (width roiArea) (height roiArea))
             w1 ok1 w2
         \<and> (if ok1
             then checked_call sdk
                    (POASetImageStartPos (m_nCameraID this) (startX roiArea) (startY roiArea)) w2
                    (fst (fst (setROIArea sdk this roiArea w)))
                    (snd (setROIArea sdk this roiArea w))
             else fst (fst (setROIArea sdk this roiArea w)) = False
                  \<and> snd (setROIArea sdk this roiArea w) = w2))
   \<and> checked_call sdk (POAGetConfig (m_nCameraID this) POA_EXPOSURE) w
       (status (fst (respond sdk (POAGetConfig (m_nCameraID this) POA_EXPOSURE) (sdk_state w)))
          = POA_OK)
       (snd (getExposure sdk this w))
   \<and> silent_call sdk
       (POAGetImageData (m_nCameraID this) (sint n)
          (wrap32 (c_div (fst (fst (getExposure sdk this w))) 1000 + 500)))
       (snd (getExposure sdk this w))
       (fst (fst (fst (getImageData sdk this pDataBuffer n w))))
       (snd (getImageData sdk this pDataBuffer n w))"
  by (intro conjI checked_openCamera checked_initCamera checked_setImageStartPos
      checked_setExposure checked_setGain checked_startExposure checked_stopExposure
      checked_closeCamera events_isImgDataAvailable result_isImgDataAvailable
      steps_setImageSize steps_setImageFormat steps_setROIArea checked_getExposure
      steps_getImageData)

theorem wrapper_operations_call_check_log_witness:
  "fst (fst (openCamera broken_sdk (POACamera_new 3) (world0 ()))) = False
   \<and> new_events (world0 ()) (snd (openCamera broken_sdk (POACamera_new 3) (world0 ())))
       = [Called (POAOpenCamera 3) ((sim_reply (POA_ERROR 1))\<lparr>out_int1 := 2\<rparr>),
          Cerr (''Open camera failed'' @ fw_excl @ '', error code: POA_ERROR_1'' @ endl)]
   \<and> checked_call broken_sdk (POAOpenCamera 3) (world0 ()) False
        (snd (openCamera broken_sdk (POACamera_new 3) (world0 ())))
   \<and> fst (fst (setImageSize busy_sdk (POACamera_new 3) 800 480 (world0 ()))) = True
   \<and> new_events (world0 ()) (snd (setImageSize busy_sdk (POACamera_new 3) 800 480 (world0 ())))
       = [Called (POAGetCameraState 3) ((sim_reply POA_OK)\<lparr>out_state := STATE_EXPOSING\<rparr>),
          Called (POAStopExposure 3) ((sim_reply POA_OK)\<lparr>out_state := STATE_EXPOSING\<rparr>),
          Called (POASetImageSize 3 800 480) ((sim_reply POA_OK)\<lparr>out_state := STATE_EXPOSING\<rparr>)]"
proof -
  let ?cam = "POACamera_new 3"
  let ?w = "world0 ()"
  have c: "checked_call broken_sdk (POAOpenCamera (m_nCameraID ?cam)) ?w
             (fst (fst (openCamera broken_sdk ?cam ?w))) (snd (openCamera broken_sdk ?cam ?w))"
    using wrapper_operations_call_check_log
      [where sdk = broken_sdk and this = ?cam and w = ?w and x = 0 and y = 0 and v = 0
         and isAuto = False and imgFmt = RAW8 and pDataBuffer = "[]" and n = 0
         and roiArea = ROIArea_new]
    by (rule conjunct1)
  have i: "m_nCameraID ?cam = 3"
    by (simp add: POACamera_new_def)
  have r: "fst (fst (openCamera broken_sdk ?cam ?w)) = False"
    by (simp add: openCamera_def call_def broken_sdk_def world0_def sim_reply_def Let_def)
  have e: "new_events ?w (snd (openCamera broken_sdk ?cam ?w))
             = [Called (POAOpenCamera 3) ((sim_reply (POA_ERROR 1))\<lparr>out_int1 := 2\<rparr>),
                Cerr (''Open camera failed'' @ fw_excl @ '', error code: POA_ERROR_1'' @ endl)]"
    by (simp add: openCamera_def new_events_def call_def cerr_def emit_def broken_sdk_def
        world0_def POACamera_new_def sim_error_string_def sim_reply_def dec_nat.simps Let_def)
  have b: "fst (fst (setImageSize busy_sdk ?cam 800 480 ?w)) = True
           \<and> new_events ?w (snd (setImageSize busy_sdk ?cam 800 480 ?w))
               = [Called (POAGetCameraState 3) ((sim_reply POA_OK)\<lparr>out_state := STATE_EXPOSING\<rparr>),
                  Called (POAStopExposure 3) ((sim_reply POA_OK)\<lparr>out_state := STATE_EXPOSING\<rparr>),
                  Called (POASetImageSize 3 800 480)
                    ((sim_reply POA_OK)\<lparr>out_state := STATE_EXPOSING\<rparr>)]"
    by (simp add: setImageSize_def new_events_def call_def busy_sdk_def world0_def
        POACamera_new_def sim_reply_def Let_def)
  from c i r e b show ?thesis by simp
qed

subsection \<open>Error reporting\<close>



lemma reports_iff:
  "reports sel es w w'
     \<longleftrightarrow> (\<exists>evs. trace w' = trace w @ evs \<and> reported_on sel es evs \<and> settled sel evs)"
proof
  assume a: "reports sel es w w'"
  have "take (length (trace w)) (trace w') @ drop (length (trace w)) (trace w') = trace w'"
    by (rule append_take_drop_id)
  with a have "trace w' = trace w @ new_events w w'"
    by (simp add: reports_def extends_def new_events_def)
  with a show "\<exists>evs. trace w' = trace w @ evs \<and> reported_on sel es evs \<and> settled sel evs"
    unfolding reports_def by blast
next
  assume "\<exists>evs. trace w' = trace w @ evs \<and> reported_on sel es evs \<and> settled sel evs"
  then show "reports sel es w w'"
    by (auto simp: reports_def extends_def new_events_def)
qed

lemma reports_refl [simp]: "reports sel es w w"
  by (simp add: reports_iff settled_def)


lemmas unfold_reports = reports_iff settled_def call_def cerr_def cout_def emit_def Let_def

lemma reports_cout: "reports sel es w (cout s w)"
  by (simp add: unfold_reports)
































subsection \<open>The capture loops\<close>

lemma new_events_same [simp]: "new_events w w = []"
  by (simp add: new_events_def)

lemma new_events_eqI: "trace w' = trace w @ evs \<Longrightarrow> new_events w w' = evs"
  by (simp add: new_events_def)

lemma files_of_append [simp]: "files_of (xs @ ys) = files_of xs @ files_of ys"
  by (induction xs rule: files_of.induct) simp_all

lemma trace_isImgDataAvailable:
  "respond sdk (POAImageReady (m_nCameraID this)) (sdk_state w) = (r, s')
     \<Longrightarrow> isImgDataAvailable sdk this w
           = ((cpp_ready r, this),
              \<lparr>sdk_state = s', trace = trace w @ [Called (POAImageReady (m_nCameraID this)) r]\<rparr>)"
  by (simp add: isImgDataAvailable_def call_def cpp_ready_def Let_def)

lemma main_poll_loop_trace:
  "trace (world_of (main_poll_loop fuel sdk this w))
     = trace w @ map (Called (POAImageReady (m_nCameraID this)))
                    (take_until cpp_ready (poll_replies sdk (m_nCameraID this) fuel (sdk_state w)))"
proof (induction fuel arbitrary: w)
  case 0
  show ?case by simp
next
  case (Suc fuel)
  obtain r s' where r: "respond sdk (POAImageReady (m_nCameraID this)) (sdk_state w) = (r, s')"
    by (cases "respond sdk (POAImageReady (m_nCameraID this)) (sdk_state w)")
  show ?case
    using r Suc.IH by (simp add: trace_isImgDataAvailable)
qed

lemma main_poll_loop_done:
  "is_Done (main_poll_loop fuel sdk this w)
     = list_ex cpp_ready (poll_replies sdk (m_nCameraID this) fuel (sdk_state w))"
proof (induction fuel arbitrary: w)
  case 0
  show ?case by simp
next
  case (Suc fuel)
  obtain r s' where r: "respond sdk (POAImageReady (m_nCameraID this)) (sdk_state w) = (r, s')"
    by (cases "respond sdk (POAImageReady (m_nCameraID this)) (sdk_state w)")
  show ?case
    using r Suc.IH by (simp add: trace_isImgDataAvailable)
qed

lemma main_poll_loop_this: "main_poll_loop fuel sdk this w = Done c w' \<Longrightarrow> c = this"
proof (induction fuel arbitrary: w)
  case 0
  then show ?case by simp
next
  case (Suc fuel)
  obtain r s' where r: "respond sdk (POAImageReady (m_nCameraID this)) (sdk_state w) = (r, s')"
    by (cases "respond sdk (POAImageReady (m_nCameraID this)) (sdk_state w)")
  show ?case
    using r Suc.IH Suc.prems by (simp add: trace_isImgDataAvailable split: if_splits)
qed

lemma c_poll_loop_trace:
  "trace (world_of (c_poll_loop fuel sdk cid w))
     = trace w @ map (Called (POAImageReady cid))
                    (take_until c_ready (poll_replies sdk cid fuel (sdk_state w)))"
proof (induction fuel arbitrary: w)
  case 0
  show ?case by simp
next
  case (Suc fuel)
  obtain r s' where r: "respond sdk (POAImageReady cid) (sdk_state w) = (r, s')"
    by (cases "respond sdk (POAImageReady cid) (sdk_state w)")
  have "out_bool r = POA_FALSE \<longleftrightarrow> \<not> c_ready r"
    by (cases "out_bool r") (simp_all add: c_ready_def)
  then show ?case
    using r Suc.IH by (simp add: call_def Let_def)
qed

lemma c_poll_loop_done:
  "is_Done (c_poll_loop fuel sdk cid w)
     = list_ex c_ready (poll_replies sdk cid fuel (sdk_state w))"
proof (induction fuel arbitrary: w)
  case 0
  show ?case by simp
next
  case (Suc fuel)
  obtain r s' where r: "respond sdk (POAImageReady cid) (sdk_state w) = (r, s')"
    by (cases "respond sdk (POAImageReady cid) (sdk_state w)")
  have "out_bool r = POA_FALSE \<longleftrightarrow> \<not> c_ready r"
    by (cases "out_bool r") (simp_all add: c_ready_def)
  then show ?case
    using r Suc.IH by (simp add: call_def Let_def)
qed


lemma getImageData_result:
  obtains ok buf' w2 where "getImageData sdk this buf n w = (((ok, buf'), this), w2)"
proof -
  obtain ok buf' c w2 where g: "getImageData sdk this buf n w = (((ok, buf'), c), w2)"
    by (cases "getImageData sdk this buf n w") auto
  with this_getImageData [of sdk this buf n w] have "c = this" by simp
  with g that show ?thesis by blast
qed

text \<open>The cases of one turn of the C++ capture loop, as an induction rule.\<close>

lemma main_capture_loop_induct:
  assumes exit: "\<And>fuel buf n w. \<not> n > 0 \<Longrightarrow> P fuel buf n w (Done (this, buf) w)"
    and nofuel: "\<And>buf n w. n > 0 \<Longrightarrow> P 0 buf n w (OutOfFuel w)"
    and stuck: "\<And>fuel buf n w w1. n > 0
        \<Longrightarrow> main_poll_loop (Suc fuel) sdk this w = OutOfFuel w1
        \<Longrightarrow> P (Suc fuel) buf n w (OutOfFuel w1)"
    and retry: "\<And>fuel buf n w w1 buf' w2. n > 0
        \<Longrightarrow> main_poll_loop (Suc fuel) sdk this w = Done this w1
        \<Longrightarrow> getImageData sdk this buf (800 * 480) w1 = (((False, buf'), this), w2)
        \<Longrightarrow> P fuel buf' n (cout (''get image data failed!'' @ endl) w2)
              (main_capture_loop fuel sdk this buf' n (cout (''get image data failed!'' @ endl) w2))
        \<Longrightarrow> P (Suc fuel) buf n w
              (main_capture_loop fuel sdk this buf' n (cout (''get image data failed!'' @ endl) w2))"
    and saved: "\<And>fuel buf n w w1 buf' w2. n > 0
        \<Longrightarrow> main_poll_loop (Suc fuel) sdk this w = Done this w1
        \<Longrightarrow> getImageData sdk this buf (800 * 480) w1 = (((True, buf'), this), w2)
        \<Longrightarrow> P fuel buf' (n - 1) (main_save buf' n w2)
              (main_capture_loop fuel sdk this buf' (n - 1) (main_save buf' n w2))
        \<Longrightarrow> P (Suc fuel) buf n w
              (main_capture_loop fuel sdk this buf' (n - 1) (main_save buf' n w2))"
  shows "P fuel buf n w (main_capture_loop fuel sdk this buf n w)"
proof (induction fuel arbitrary: buf n w)
  case 0
  show ?case using exit [of n 0 buf w] nofuel [of n buf w] by simp
next
  case (Suc fuel)
  show ?case
  proof (cases "n > 0")
    case False
    then show ?thesis using exit [of n "Suc fuel" buf w] by simp
  next
    case True
    show ?thesis
    proof (cases "main_poll_loop (Suc fuel) sdk this w")
      case (OutOfFuel w1)
      with True stuck [OF True OutOfFuel, of buf] show ?thesis by simp
    next
      case (Done c w1)
      then have d: "main_poll_loop (Suc fuel) sdk this w = Done this w1"
        using main_poll_loop_this [of "Suc fuel" sdk this w c w1] by simp
      obtain ok buf' w2 where
        g: "getImageData sdk this buf (800 * 480) w1 = (((ok, buf'), this), w2)"
        by (rule getImageData_result)
      show ?thesis
      proof (cases ok)
        case False
        with retry [OF True d, of buf buf' w2] g Suc.IH True d show ?thesis by simp
      next
        case ok: True
        with saved [OF True d, of buf buf' w2] g Suc.IH True d show ?thesis by simp
      qed
    qed
  qed
qed


lemma adds_world: "adds p w w' \<Longrightarrow> \<exists>evs. trace w' = trace w @ evs \<and> list_all p evs"
  by (simp add: adds_iff)

lemma adds_main_poll_loop:
  assumes "\<And>r. p (Called (POAImageReady (m_nCameraID this)) r)"
  shows "adds p w (world_of (main_poll_loop fuel sdk this w))"
  unfolding adds_iff main_poll_loop_trace
  by (simp add: list_all_iff assms image_iff)

lemma adds_main_save:
  assumes "\<And>s. p (Cout s)" and "\<And>f d. p (FileWrite f d)"
  shows "adds p w (main_save buf n w)"
  by (simp add: main_save_def adds_iff cout_def emit_def Let_def assms)

lemma length_sdk_fill [simp]: "length (sdk_fill buf d) = length buf"
  by (simp add: sdk_fill_def)

lemma getImageData_length:
  "getImageData sdk this buf n w = (((ok, buf'), c), w2) \<Longrightarrow> length buf' = length buf"
  by (auto simp: getImageData_def Let_def split: prod.splits)

lemma adds_main_capture_loop:
  assumes "\<And>r. p (Called (POAImageReady (m_nCameraID this)) r)"
    and "\<And>r. p (Called (POAGetConfig (m_nCameraID this) POA_EXPOSURE) r)"
    and "\<And>t r. p (Called (POAGetImageData (m_nCameraID this) 384000 t) r)"
    and "\<And>s. p (Cerr s)" and "\<And>s. p (Cout s)" and "\<And>f d. p (FileWrite f d)"
  shows "adds p w (world_of (main_capture_loop fuel sdk this buf n w))"
proof (rule main_capture_loop_induct
    [where P = "\<lambda>fuel buf n w res. adds p w (world_of res)"
       and sdk = sdk and this = this and fuel = fuel and buf = buf and n = n and w = w])
  fix fuel :: nat and buf :: "byte list" and n :: int and w w1 :: "'a world"
  assume "main_poll_loop (Suc fuel) sdk this w = OutOfFuel w1"
  then show "adds p w (world_of (OutOfFuel w1 :: (POACamera \<times> byte list, 'a) outcome))"
    using adds_main_poll_loop [of p this w "Suc fuel" sdk] assms(1) by simp
next
  fix fuel :: nat and buf buf' :: "byte list" and n :: int and w w1 w2 :: "'a world"
  assume d: "main_poll_loop (Suc fuel) sdk this w = Done this w1"
    and g: "getImageData sdk this buf (800 * 480) w1 = (((False, buf'), this), w2)"
    and IH: "adds p (cout (''get image data failed!'' @ endl) w2)
               (world_of (main_capture_loop fuel sdk this buf' n
                  (cout (''get image data failed!'' @ endl) w2)))"
  have 1: "adds p w w1"
    using adds_main_poll_loop [of p this w "Suc fuel" sdk] assms(1) d by simp
  have 2: "adds p w1 w2"
    using adds_getImageData [of p this "800 * 480" w1 sdk buf] assms(2-4) g by simp
  have 3: "adds p w2 (cout (''get image data failed!'' @ endl) w2)"
    using assms(5) by (rule adds_cout)
  show "adds p w (world_of (main_capture_loop fuel sdk this buf' n
                  (cout (''get image data failed!'' @ endl) w2)))"
    using adds_trans [OF adds_trans [OF adds_trans [OF 1 2] 3] IH] .
next
  fix fuel :: nat and buf buf' :: "byte list" and n :: int and w w1 w2 :: "'a world"
  assume d: "main_poll_loop (Suc fuel) sdk this w = Done this w1"
    and g: "getImageData sdk this buf (800 * 480) w1 = (((True, buf'), this), w2)"
    and IH: "adds p (main_save buf' n w2)
               (world_of (main_capture_loop fuel sdk this buf' (n - 1) (main_save buf' n w2)))"
  have 1: "adds p w w1"
    using adds_main_poll_loop [of p this w "Suc fuel" sdk] assms(1) d by simp
  have 2: "adds p w1 w2"
    using adds_getImageData [of p this "800 * 480" w1 sdk buf] assms(2-4) g by simp
  have 3: "adds p w2 (main_save buf' n w2)"
    using assms(5,6) by (rule adds_main_save)
  show "adds p w (world_of (main_capture_loop fuel sdk this buf' (n - 1) (main_save buf' n w2)))"
    using adds_trans [OF adds_trans [OF adds_trans [OF 1 2] 3] IH] .
qed simp_all

subsection \<open>The files of the C++ capture loop\<close>

lemma files_of_quiet: "list_all (\<lambda>e. files_of [e] = []) evs \<Longrightarrow> files_of evs = []"
proof (induction evs)
  case Nil
  show ?case by simp
next
  case (Cons e evs)
  then show ?case by (cases e) simp_all
qed

lemma files_unchanged:
  assumes "adds (\<lambda>e. files_of [e] = []) w w'"
  shows "files_of (trace w') = files_of (trace w)"
proof -
  from adds_world [OF assms] obtain evs
    where t: "trace w' = trace w @ evs" and q: "list_all (\<lambda>e. files_of [e] = []) evs"
    by blast
  from q have "files_of evs = []" by (rule files_of_quiet)
  with t show ?thesis by simp
qed

lemma files_main_poll_loop:
  "files_of (trace (world_of (main_poll_loop fuel sdk this w))) = files_of (trace w)"
  by (rule files_unchanged, rule adds_main_poll_loop) simp

lemma files_getImageData:
  "files_of (trace (snd (getImageData sdk this buf n w))) = files_of (trace w)"
  by (rule files_unchanged, rule adds_getImageData) simp_all

lemma files_cout [simp]: "files_of (trace (cout s w)) = files_of (trace w)"
  by (simp add: cout_def emit_def)

lemma files_main_save:
  "files_of (trace (main_save buf n w))
     = files_of (trace w) @ [(dec_int n @ ''_raw8_image_data.bin'', take (800 * 480) buf)]"
  by (simp add: main_save_def cout_def emit_def Let_def)

lemma main_capture_loop_files:
  "\<exists>k. k \<le> nat n
       \<and> map fst (files_of (trace (world_of (main_capture_loop fuel sdk this buf n w))))
           = map fst (files_of (trace w)) @ countdown_names ''_raw8_image_data.bin'' n k
       \<and> (is_Done (main_capture_loop fuel sdk this buf n w) \<longrightarrow> k = nat n)"
proof (rule main_capture_loop_induct
    [where P = "\<lambda>fuel buf n w res. \<exists>k. k \<le> nat n
       \<and> map fst (files_of (trace (world_of res)))
           = map fst (files_of (trace w)) @ countdown_names ''_raw8_image_data.bin'' n k
       \<and> (is_Done res \<longrightarrow> k = nat n)"
       and sdk = sdk and this = this and fuel = fuel and buf = buf and n = n and w = w])
  fix fuel :: nat and buf :: "byte list" and n :: int and w :: "'a world"
  assume "\<not> 0 < n"
  then have "nat n = 0" by simp
  then show "\<exists>k\<le>nat n. map fst (files_of (trace (world_of (Done (this, buf) w))))
       = map fst (files_of (trace w)) @ countdown_names ''_raw8_image_data.bin'' n k
       \<and> (is_Done (Done (this, buf) w) \<longrightarrow> k = nat n)"
    by simp
next
  fix buf :: "byte list" and n :: int and w :: "'a world"
  show "\<exists>k\<le>nat n. map fst (files_of (trace (world_of (OutOfFuel w :: (POACamera \<times> byte list, 'a) outcome))))
       = map fst (files_of (trace w)) @ countdown_names ''_raw8_image_data.bin'' n k
       \<and> (is_Done (OutOfFuel w :: (POACamera \<times> byte list, 'a) outcome) \<longrightarrow> k = nat n)"
    by (intro exI [of _ 0]) simp
next
  fix fuel :: nat and buf :: "byte list" and n :: int and w w1 :: "'a world"
  assume "main_poll_loop (Suc fuel) sdk this w = OutOfFuel w1"
  then have "files_of (trace w1) = files_of (trace w)"
    using files_main_poll_loop [of "Suc fuel" sdk this w] by simp
  then show "\<exists>k\<le>nat n. map fst (files_of (trace (world_of (OutOfFuel w1 :: (POACamera \<times> byte list, 'a) outcome))))
       = map fst (files_of (trace w)) @ countdown_names ''_raw8_image_data.bin'' n k
       \<and> (is_Done (OutOfFuel w1 :: (POACamera \<times> byte list, 'a) outcome) \<longrightarrow> k = nat n)"
    by (intro exI [of _ 0]) simp
next
  fix fuel :: nat and buf buf' :: "byte list" and n :: int and w w1 w2 :: "'a world"
  let ?w3 = "cout (''get image data failed!'' @ endl) w2"
  let ?res = "main_capture_loop fuel sdk this buf' n ?w3"
  assume d: "main_poll_loop (Suc fuel) sdk this w = Done this w1"
    and g: "getImageData sdk this buf (800 * 480) w1 = (((False, buf'), this), w2)"
    and IH: "\<exists>k\<le>nat n. map fst (files_of (trace (world_of ?res)))
       = map fst (files_of (trace ?w3)) @ countdown_names ''_raw8_image_data.bin'' n k
       \<and> (is_Done ?res \<longrightarrow> k = nat n)"
  have "files_of (trace w1) = files_of (trace w)"
    using files_main_poll_loop [of "Suc fuel" sdk this w] d by simp
  moreover have "files_of (trace w2) = files_of (trace w1)"
    using files_getImageData [of sdk this buf "800 * 480" w1] g by simp
  ultimately have "files_of (trace ?w3) = files_of (trace w)" by simp
  with IH show "\<exists>k\<le>nat n. map fst (files_of (trace (world_of ?res)))
       = map fst (files_of (trace w)) @ countdown_names ''_raw8_image_data.bin'' n k
       \<and> (is_Done ?res \<longrightarrow> k = nat n)"
    by simp
next
  fix fuel :: nat and buf buf' :: "byte list" and n :: int and w w1 w2 :: "'a world"
  let ?w3 = "main_save buf' n w2"
  let ?res = "main_capture_loop fuel sdk this buf' (n - 1) ?w3"
  assume n: "0 < n"
    and d: "main_poll_loop (Suc fuel) sdk this w = Done this w1"
    and g: "getImageData sdk this buf (800 * 480) w1 = (((True, buf'), this), w2)"
    and IH: "\<exists>k\<le>nat (n - 1). map fst (files_of (trace (world_of ?res)))
       = map fst (files_of (trace ?w3)) @ countdown_names ''_raw8_image_data.bin'' (n - 1) k
       \<and> (is_Done ?res \<longrightarrow> k = nat (n - 1))"
  have "files_of (trace w1) = files_of (trace w)"
    using files_main_poll_loop [of "Suc fuel" sdk this w] d by simp
  moreover have "files_of (trace w2) = files_of (trace w1)"
    using files_getImageData [of sdk this buf "800 * 480" w1] g by simp
  ultimately have f: "map fst (files_of (trace ?w3))
      = map fst (files_of (trace w)) @ [dec_int n @ ''_raw8_image_data.bin'']"
    by (simp add: files_main_save)
  from IH obtain k where k: "k \<le> nat (n - 1)"
    and m: "map fst (files_of (trace (world_of ?res)))
       = map fst (files_of (trace ?w3)) @ countdown_names ''_raw8_image_data.bin'' (n - 1) k"
    and e: "is_Done ?res \<longrightarrow> k = nat (n - 1)"
    by blast
  have "Suc k \<le> nat n" using k n by simp
  moreover have "map fst (files_of (trace (world_of ?res)))
       = map fst (files_of (trace w)) @ countdown_names ''_raw8_image_data.bin'' n (Suc k)"
    using m f by simp
  moreover have "is_Done ?res \<longrightarrow> Suc k = nat n" using e n by auto
  ultimately show "\<exists>k\<le>nat n. map fst (files_of (trace (world_of ?res)))
       = map fst (files_of (trace w)) @ countdown_names ''_raw8_image_data.bin'' n k
       \<and> (is_Done ?res \<longrightarrow> k = nat n)"
    by blast
qed

subsection \<open>Raw files\<close>

lemma buffer_after_append [simp]:
  "buffer_after b (xs @ ys) = buffer_after (buffer_after b xs) ys"
  by (induction xs arbitrary: b) simp_all

lemma raw_files_append [simp]:
  "raw_files b (xs @ ys) = (raw_files b xs \<and> raw_files (buffer_after b xs) ys)"
  by (induction xs arbitrary: b) auto

lemma inert_events:
  "list_all (\<lambda>e. \<forall>b. fill_of e b = b \<and> written_is e b) evs
     \<Longrightarrow> buffer_after b evs = b \<and> raw_files b evs"
  by (induction evs) simp_all

lemma inert_step:
  assumes "adds (\<lambda>e. \<forall>b. fill_of e b = b \<and> written_is e b) w w'"
  shows "buffer_after b (trace w') = buffer_after b (trace w)"
    and "raw_files b (trace w') = raw_files b (trace w)"
proof -
  from adds_world [OF assms] obtain evs
    where t: "trace w' = trace w @ evs"
      and q: "list_all (\<lambda>e. \<forall>b. fill_of e b = b \<and> written_is e b) evs"
    by blast
  from inert_events [OF q] t
  show "buffer_after b (trace w') = buffer_after b (trace w)"
    and "raw_files b (trace w') = raw_files b (trace w)"
    by simp_all
qed

lemma inert_main_poll_loop:
  "buffer_after b (trace (world_of (main_poll_loop fuel sdk this w))) = buffer_after b (trace w)"
  "raw_files b (trace (world_of (main_poll_loop fuel sdk this w))) = raw_files b (trace w)"
  by (rule inert_step, rule adds_main_poll_loop, simp)+

lemma inert_getExposure:
  "buffer_after b (trace (snd (getExposure sdk this w))) = buffer_after b (trace w)"
  "raw_files b (trace (snd (getExposure sdk this w))) = raw_files b (trace w)"
  by (rule inert_step, rule adds_getExposure, simp_all)+

lemma getImageData_replay:
  assumes "getImageData sdk this buf n w = (((ok, buf'), c), w2)"
    and "buffer_after b (trace w) = buf"
  shows "buffer_after b (trace w2) = buf'"
    and "raw_files b (trace w2) = raw_files b (trace w)"
proof -
  obtain v c1 w1 where e: "getExposure sdk this w = ((v, c1), w1)"
    by (cases "getExposure sdk this w") auto
  obtain r s' where r: "respond sdk (POAGetImageData (m_nCameraID c1) (sint n) (wrap32 (c_div v 1000 + 500)))
                          (sdk_state w1) = (r, s')"
    by (cases "respond sdk (POAGetImageData (m_nCameraID c1) (sint n) (wrap32 (c_div v 1000 + 500))) (sdk_state w1)")
  have 1: "buffer_after b (trace w1) = buf" "raw_files b (trace w1) = raw_files b (trace w)"
    using inert_getExposure [of b sdk this w] e assms(2) by simp_all
  have 2: "trace w2 = trace w1 @ [Called (POAGetImageData (m_nCameraID c1) (sint n) (wrap32 (c_div v 1000 + 500))) r]"
    and 3: "buf' = sdk_fill buf r_data" if "r_data = out_data r" for r_data
    using assms(1) e r that by (auto simp: getImageData_def call_def Let_def)
  show "buffer_after b (trace w2) = buf'"
    using 1 2 3 [OF refl] by simp
  show "raw_files b (trace w2) = raw_files b (trace w)"
    using 1 2 by simp
qed

lemma main_save_replay:
  "buffer_after b (trace (main_save buf n w)) = buffer_after b (trace w)"
  "raw_files b (trace (main_save buf n w))
     = (raw_files b (trace w) \<and> take (800 * 480) buf = buffer_after b (trace w))"
  by (simp_all add: main_save_def cout_def emit_def Let_def)

lemma cout_replay [simp]:
  "buffer_after b (trace (cout s w)) = buffer_after b (trace w)"
  "raw_files b (trace (cout s w)) = raw_files b (trace w)"
  by (simp_all add: cout_def emit_def)

lemma main_capture_loop_raw:
  "buffer_after b (trace w) = buf \<and> raw_files b (trace w) \<and> length buf = 800 * 480
     \<longrightarrow> raw_files b (trace (world_of (main_capture_loop fuel sdk this buf n w)))"
proof (rule main_capture_loop_induct
    [where P = "\<lambda>fuel buf n w res.
        buffer_after b (trace w) = buf \<and> raw_files b (trace w) \<and> length buf = 800 * 480
          \<longrightarrow> raw_files b (trace (world_of res))"
       and sdk = sdk and this = this and fuel = fuel and buf = buf and n = n and w = w])
  fix fuel :: nat and buf :: "byte list" and n :: int and w w1 :: "'a world"
  assume "main_poll_loop (Suc fuel) sdk this w = OutOfFuel w1"
  then show "buffer_after b (trace w) = buf \<and> raw_files b (trace w) \<and> length buf = 800 * 480
      \<longrightarrow> raw_files b (trace (world_of (OutOfFuel w1 :: (POACamera \<times> byte list, 'a) outcome)))"
    using inert_main_poll_loop(2) [of b "Suc fuel" sdk this w] by simp
next
  fix fuel :: nat and buf buf' :: "byte list" and n :: int and w w1 w2 :: "'a world"
  let ?w3 = "cout (''get image data failed!'' @ endl) w2"
  let ?res = "main_capture_loop fuel sdk this buf' n ?w3"
  assume d: "main_poll_loop (Suc fuel) sdk this w = Done this w1"
    and g: "getImageData sdk this buf (800 * 480) w1 = (((False, buf'), this), w2)"
    and IH: "buffer_after b (trace ?w3) = buf' \<and> raw_files b (trace ?w3) \<and> length buf' = 800 * 480
               \<longrightarrow> raw_files b (trace (world_of ?res))"
  show "buffer_after b (trace w) = buf \<and> raw_files b (trace w) \<and> length buf = 800 * 480
      \<longrightarrow> raw_files b (trace (world_of ?res))"
  proof
    assume a: "buffer_after b (trace w) = buf \<and> raw_files b (trace w) \<and> length buf = 800 * 480"
    have 1: "buffer_after b (trace w1) = buf" "raw_files b (trace w1)"
      using inert_main_poll_loop [of b "Suc fuel" sdk this w] d a by simp_all
    have 2: "buffer_after b (trace w2) = buf'" "raw_files b (trace w2)"
      using getImageData_replay [OF g 1(1)] 1(2) by simp_all
    have 3: "length buf' = 800 * 480"
      using getImageData_length [OF g] a by simp
    from IH 2 3 show "raw_files b (trace (world_of ?res))" by simp
  qed
next
  fix fuel :: nat and buf buf' :: "byte list" and n :: int and w w1 w2 :: "'a world"
  let ?w3 = "main_save buf' n w2"
  let ?res = "main_capture_loop fuel sdk this buf' (n - 1) ?w3"
  assume d: "main_poll_loop (Suc fuel) sdk this w = Done this w1"
    and g: "getImageData sdk this buf (800 * 480) w1 = (((True, buf'), this), w2)"
    and IH: "buffer_after b (trace ?w3) = buf' \<and> raw_files b (trace ?w3) \<and> length buf' = 800 * 480
               \<longrightarrow> raw_files b (trace (world_of ?res))"
  show "buffer_after b (trace w) = buf \<and> raw_files b (trace w) \<and> length buf = 800 * 480
      \<longrightarrow> raw_files b (trace (world_of ?res))"
  proof
    assume a: "buffer_after b (trace w) = buf \<and> raw_files b (trace w) \<and> length buf = 800 * 480"
    have 1: "buffer_after b (trace w1) = buf" "raw_files b (trace w1)"
      using inert_main_poll_loop [of b "Suc fuel" sdk this w] d a by simp_all
    have 2: "buffer_after b (trace w2) = buf'" "raw_files b (trace w2)"
      using getImageData_replay [OF g 1(1)] 1(2) by simp_all
    have 3: "length buf' = 800 * 480"
      using getImageData_length [OF g] a by simp
    have 4: "buffer_after b (trace ?w3) = buf'" "raw_files b (trace ?w3)"
      using main_save_replay [of b buf' n w2] 2 3 by simp_all
    from IH 3 4 show "raw_files b (trace (world_of ?res))" by simp
  qed
qed simp_all

subsection \<open>When the C++ capture loop ends\<close>

lemma poll_replies_never:
  "(\<And>s. \<not> p (fst (respond sdk (POAImageReady cid) s)))
     \<Longrightarrow> \<not> list_ex p (poll_replies sdk cid k s)"
proof (induction k arbitrary: s)
  case 0
  show ?case by simp
next
  case (Suc k)
  obtain r s' where r: "respond sdk (POAImageReady cid) s = (r, s')"
    by (cases "respond sdk (POAImageReady cid) s")
  from Suc.prems [of s] r have "\<not> p r" by simp
  with r Suc.IH [OF Suc.prems, of s'] show ?case by simp
qed

lemma poll_replies_length [simp]: "length (poll_replies sdk cid k s) = k"
  by (induction k arbitrary: s) (simp_all add: Let_def split: prod.splits)

lemma take_until_never: "\<not> list_ex p xs \<Longrightarrow> take_until p xs = xs"
  by (induction xs) simp_all

lemma getImageData_ok:
  assumes "getImageData sdk this buf n w = (((True, buf'), c), w2)"
  shows "\<exists>s t. status (fst (respond sdk (POAGetImageData (m_nCameraID this) (sint n) t) s)) = POA_OK"
proof -
  obtain v c1 w1 where e: "getExposure sdk this w = ((v, c1), w1)"
    by (cases "getExposure sdk this w") auto
  then have c1: "c1 = this" using this_simple(11) [of sdk this w] by simp
  obtain r s' where r: "respond sdk (POAGetImageData (m_nCameraID this) (sint n) (wrap32 (c_div v 1000 + 500)))
                          (sdk_state w1) = (r, s')"
    by (cases "respond sdk (POAGetImageData (m_nCameraID this) (sint n) (wrap32 (c_div v 1000 + 500))) (sdk_state w1)")
  have "status r = POA_OK"
    using assms e r c1 by (auto simp: getImageData_def call_def Let_def split: if_splits)
  with r have "status (fst (respond sdk (POAGetImageData (m_nCameraID this) (sint n) (wrap32 (c_div v 1000 + 500)))
                          (sdk_state w1))) = POA_OK"
    by simp
  then show ?thesis by blast
qed

lemma main_capture_loop_fetch_fails:
  assumes "\<And>s t. status (fst (respond sdk (POAGetImageData (m_nCameraID this) 384000 t) s))
                   \<noteq> POA_OK"
  shows "0 < n \<longrightarrow> \<not> is_Done (main_capture_loop fuel sdk this buf n w)"
proof (rule main_capture_loop_induct
    [where P = "\<lambda>fuel buf n w res. 0 < n \<longrightarrow> \<not> is_Done res"
       and sdk = sdk and this = this and fuel = fuel and buf = buf and n = n and w = w])
  fix fuel :: nat and buf buf' :: "byte list" and n :: int and w w1 w2 :: "'a world"
  assume g: "getImageData sdk this buf (800 * 480) w1 = (((True, buf'), this), w2)"
  from getImageData_ok [OF g] assms have False by simp
  then show "0 < n \<longrightarrow> \<not> is_Done (main_capture_loop fuel sdk this buf' (n - 1)
                                     (main_save buf' n w2))"
    by simp
qed simp_all

lemma main_capture_loop_never_ready:
  assumes "\<And>s. \<not> cpp_ready (fst (respond sdk (POAImageReady (m_nCameraID this)) s))"
  shows "0 < n \<longrightarrow> \<not> is_Done (main_capture_loop fuel sdk this buf n w)"
proof (rule main_capture_loop_induct
    [where P = "\<lambda>fuel buf n w res. 0 < n \<longrightarrow> \<not> is_Done res"
       and sdk = sdk and this = this and fuel = fuel and buf = buf and n = n and w = w])
  fix fuel :: nat and buf buf' :: "byte list" and n :: int and w w1 w2 :: "'a world"
  assume d: "main_poll_loop (Suc fuel) sdk this w = Done this w1"
  have "\<not> is_Done (main_poll_loop (Suc fuel) sdk this w)"
    unfolding main_poll_loop_done using assms by (rule poll_replies_never)
  with d have f: False by simp
  from f show "0 < n \<longrightarrow> \<not> is_Done (main_capture_loop fuel sdk this buf' n
                                     (cout (''get image data failed!'' @ endl) w2))"
    by simp
  from f show "0 < n \<longrightarrow> \<not> is_Done (main_capture_loop fuel sdk this buf' (n - 1)
                                     (main_save buf' n w2))"
    by simp
qed simp_all

lemma main_capture_loop_this_all:
  "\<forall>c b w'. main_capture_loop fuel sdk this buf n w = Done (c, b) w' \<longrightarrow> c = this"
  by (rule main_capture_loop_induct
      [where P = "\<lambda>fuel buf n w res. \<forall>c b w'. res = Done (c, b) w' \<longrightarrow> c = this"
         and sdk = sdk and this = this and fuel = fuel and buf = buf and n = n and w = w])
    simp_all

lemma main_capture_loop_this:
  "main_capture_loop fuel sdk this buf n w = Done (c, b) w' \<Longrightarrow> c = this"
  using main_capture_loop_this_all by blast

end
